theory Spec2Isabelle
  imports Main "HOL-Library.Sublist"
begin

section \<open>Python values, exceptions and the calls that are traced\<close>

text \<open>
  The service of \<^verbatim>\<open>index.py\<close> relays a legal text to a chat-completion provider and
  turns the reply into two lists of clauses. The embedding below follows the three
  functions of the file: \<^verbatim>\<open>extract_json\<close>, \<^verbatim>\<open>analyze_with_mistral\<close> and
  \<^verbatim>\<open>analyze_clauses\<close>.

  A Python object is a \<open>pyval\<close>. A \<^verbatim>\<open>str\<close> is a \<open>string\<close>, so the model covers the
  texts whose code points are below 256. A \<^verbatim>\<open>float\<close> is kept as the decimal
  numeral it was read from (or \<^verbatim>\<open>NaN\<close>, \<^verbatim>\<open>Infinity\<close>, \<^verbatim>\<open>-Infinity\<close>) and stands for
  the double nearest to it; a \<^verbatim>\<open>complex\<close> is its two parts, kept the same way. The keys of a \<^verbatim>\<open>dict\<close> are
  strings: every dict of this program is built by a literal of the source or by a JSON
  parse, and the literal parse of \<^verbatim>\<open>extract_json\<close> is reached only on a text with no
  brace span, which Python's literal grammar cannot read as a dict or as a set. A dict
  is an association list in insertion order; \<open>map_of\<close> reads it.
\<close>

datatype pyval =
    PNone
  | PBool bool
  | PInt int
  | PFloat string
  | PComplex string string
  | PEllipsis
  | PStr string
  | PBytes string
  | PList "pyval list"
  | PTuple "pyval list"
  | PDict "(string \<times> pyval) list"

text \<open>
  An exception is its class and the text \<^verbatim>\<open>str(e)\<close>. Only subclasses of
  \<^verbatim>\<open>Exception\<close> are modelled. \<open>RequestsJSONDecodeError\<close> is the class that
  \<^verbatim>\<open>response.json()\<close> raises: it derives from \<^verbatim>\<open>RequestException\<close> and from
  \<^verbatim>\<open>json.JSONDecodeError\<close>. \<open>HTTPException\<close> is the class of the exceptions the web
  framework raises for a request it refuses.
\<close>

datatype exn_class =
    RequestException
  | RequestsJSONDecodeError
  | JSONDecodeError
  | KeyError
  | IndexError
  | TypeError
  | AttributeError
  | ValueError
  | SyntaxError
  | HTTPException
  | OtherException

datatype exn = Exn exn_class string

fun str_exn :: "exn \<Rightarrow> string" where
  "str_exn (Exn c m) = m"

fun isinstance_RequestException :: "exn \<Rightarrow> bool" where
  "isinstance_RequestException (Exn c m) = (c = RequestException \<or> c = RequestsJSONDecodeError)"

fun isinstance_JSONDecodeError :: "exn \<Rightarrow> bool" where
  "isinstance_JSONDecodeError (Exn c m) = (c = JSONDecodeError \<or> c = RequestsJSONDecodeError)"

text \<open>
  The calls a run makes to its collaborators are recorded in order: the call of the
  pipeline by the handler, the request to the provider, and the two parsers. Calls of
  the logger are left out: they return nothing and change no value of the program.
\<close>

datatype call =
    Pipeline_call string
  | Provider_call string pyval pyval
  | Strict_parse pyval
  | Literal_parse string

type_synonym 'a comp = "call list \<times> (exn + 'a)"

definition ret :: "'a \<Rightarrow> 'a comp" where
  "ret v = ([], Inr v)"

definition lift :: "exn + 'a \<Rightarrow> 'a comp" where
  "lift r = ([], r)"

definition traced :: "call \<Rightarrow> 'a comp \<Rightarrow> 'a comp" where
  "traced c m = (c # fst m, snd m)"

definition andthen :: "'a comp \<Rightarrow> ('a \<Rightarrow> 'b comp) \<Rightarrow> 'b comp" where
  "andthen m f =
     (case snd m of
        Inl e \<Rightarrow> (fst m, Inl e)
      | Inr v \<Rightarrow> (fst m @ fst (f v), snd (f v)))"

definition try_except :: "'a comp \<Rightarrow> (exn \<Rightarrow> 'a comp) \<Rightarrow> 'a comp" where
  "try_except m handler =
     (case snd m of
        Inl e \<Rightarrow> (fst m @ fst (handler e), snd (handler e))
      | Inr v \<Rightarrow> (fst m, Inr v))"

subsection \<open>Operations of the language on values\<close>

text \<open>
  Each operation is total on \<open>pyval\<close>: where Python raises, the result is the
  exception, with the class and the text CPython 3.11 gives it.
\<close>

fun type_name :: "pyval \<Rightarrow> string" where
  "type_name PNone = ''NoneType''"
| "type_name (PBool b) = ''bool''"
| "type_name (PInt i) = ''int''"
| "type_name (PFloat x) = ''float''"
| "type_name (PComplex x y) = ''complex''"
| "type_name PEllipsis = ''ellipsis''"
| "type_name (PStr s) = ''str''"
| "type_name (PBytes b) = ''bytes''"
| "type_name (PList xs) = ''list''"
| "type_name (PTuple xs) = ''tuple''"
| "type_name (PDict d) = ''dict''"

definition quoted :: "string \<Rightarrow> string" where
  "quoted s = [CHR 0x27] @ s @ [CHR 0x27]"

definition is_digit :: "char \<Rightarrow> bool" where
  "is_digit c = (48 \<le> (of_char c :: nat) \<and> (of_char c :: nat) \<le> 57)"

fun int_of_digits :: "int \<Rightarrow> string \<Rightarrow> int" where
  "int_of_digits acc [] = acc"
| "int_of_digits acc (c # cs) = int_of_digits (10 * acc + (of_char c - 48)) cs"

definition int_of_text :: "string \<Rightarrow> int" where
  "int_of_text cs =
     (if prefix ''-'' cs then - int_of_digits 0 (drop 1 cs) else int_of_digits 0 cs)"

text \<open>
  The truth value of a float kept as text. \<^verbatim>\<open>NaN\<close> and the infinities are true. A
  decimal numeral with the digits \<open>m\<close> (the point left out) and the exponent \<open>p\<close>
  (the written exponent less the count of digits after the point) has the value
  \<open>m * 10 ^ p\<close>. Python reads it as the nearest double, ties to even: the least
  positive double is \<open>2 ^ - 1074\<close>, so the numeral is read as zero, and is false,
  exactly when its value is at most \<open>2 ^ - 1075\<close>.
\<close>

definition text_nonzero :: "string \<Rightarrow> bool" where
  "text_nonzero x =
     (if list_ex (\<lambda>c. c \<in> set ''NIni'') x then True
      else
        let mantissa = takeWhile (\<lambda>c. c \<noteq> CHR ''e'' \<and> c \<noteq> CHR ''E'') x;
            m = int_of_digits 0 (filter is_digit mantissa);
            after_point = length (filter is_digit (dropWhile (\<lambda>c. c \<noteq> CHR ''.'') mantissa));
            written = int_of_text (filter (\<lambda>c. is_digit c \<or> c = CHR ''-'')
                        (drop 1 (dropWhile (\<lambda>c. c \<noteq> CHR ''e'' \<and> c \<noteq> CHR ''E'') x)));
            p = written - int after_point
        in if m = 0 then False
           else if 0 \<le> p then True
           else 10 ^ nat (- p) < m * 2 ^ 1075)"

fun truthy :: "pyval \<Rightarrow> bool" where
  "truthy PNone = False"
| "truthy (PBool b) = b"
| "truthy (PInt i) = (i \<noteq> 0)"
| "truthy (PFloat x) = text_nonzero x"
| "truthy (PComplex x y) = (text_nonzero x \<or> text_nonzero y)"
| "truthy PEllipsis = True"
| "truthy (PStr s) = (s \<noteq> [])"
| "truthy (PBytes b) = (b \<noteq> [])"
| "truthy (PList xs) = (xs \<noteq> [])"
| "truthy (PTuple xs) = (xs \<noteq> [])"
| "truthy (PDict d) = (d \<noteq> [])"

text \<open>\<^verbatim>\<open>obj[key]\<close> for a key that is a \<^verbatim>\<open>str\<close> without quotes or escapes.\<close>

fun getitem_str :: "pyval \<Rightarrow> string \<Rightarrow> exn + pyval" where
  "getitem_str (PDict d) k =
     (case map_of d k of
        Some v \<Rightarrow> Inr v
      | None \<Rightarrow> Inl (Exn KeyError (quoted k)))"
| "getitem_str (PList xs) k = Inl (Exn TypeError ''list indices must be integers or slices, not str'')"
| "getitem_str (PTuple xs) k = Inl (Exn TypeError ''tuple indices must be integers or slices, not str'')"
| "getitem_str (PStr s) k = Inl (Exn TypeError (''string indices must be integers, not '' @ quoted ''str''))"
| "getitem_str (PBytes b) k = Inl (Exn TypeError ''byte indices must be integers or slices, not str'')"
| "getitem_str v k = Inl (Exn TypeError (quoted (type_name v) @ '' object is not subscriptable''))"

text \<open>\<^verbatim>\<open>obj[0]\<close>. No key of a dict is equal to \<^verbatim>\<open>0\<close>, since the keys are strings.\<close>

fun getitem_0 :: "pyval \<Rightarrow> exn + pyval" where
  "getitem_0 (PList xs) =
     (case xs of [] \<Rightarrow> Inl (Exn IndexError ''list index out of range'') | x # _ \<Rightarrow> Inr x)"
| "getitem_0 (PTuple xs) =
     (case xs of [] \<Rightarrow> Inl (Exn IndexError ''tuple index out of range'') | x # _ \<Rightarrow> Inr x)"
| "getitem_0 (PStr s) =
     (case s of [] \<Rightarrow> Inl (Exn IndexError ''string index out of range'') | c # _ \<Rightarrow> Inr (PStr [c]))"
| "getitem_0 (PBytes b) =
     (case b of [] \<Rightarrow> Inl (Exn IndexError ''index out of range'') | c # _ \<Rightarrow> Inr (PInt (of_char c)))"
| "getitem_0 (PDict d) = Inl (Exn KeyError ''0'')"
| "getitem_0 v = Inl (Exn TypeError (quoted (type_name v) @ '' object is not subscriptable''))"

text \<open>\<^verbatim>\<open>key in obj\<close> for a key that is a \<^verbatim>\<open>str\<close>.\<close>

fun contains_str :: "string \<Rightarrow> pyval \<Rightarrow> exn + bool" where
  "contains_str k (PDict d) = Inr (map_of d k \<noteq> None)"
| "contains_str k (PList xs) = Inr (PStr k \<in> set xs)"
| "contains_str k (PTuple xs) = Inr (PStr k \<in> set xs)"
| "contains_str k (PStr s) = Inr (sublist k s)"
| "contains_str k (PBytes b) = Inl (Exn TypeError (''a bytes-like object is required, not '' @ quoted ''str''))"
| "contains_str k v = Inl (Exn TypeError (''argument of type '' @ quoted (type_name v) @ '' is not iterable''))"

text \<open>\<^verbatim>\<open>obj.get(key, default)\<close>: a method of dicts only.\<close>

fun py_get :: "pyval \<Rightarrow> string \<Rightarrow> pyval \<Rightarrow> exn + pyval" where
  "py_get (PDict d) k dflt = Inr (case map_of d k of Some v \<Rightarrow> v | None \<Rightarrow> dflt)"
| "py_get v k dflt =
     Inl (Exn AttributeError (quoted (type_name v) @ '' object has no attribute '' @ quoted ''get''))"

text \<open>\<^verbatim>\<open>str(n)\<close> for an integer.\<close>

fun nat_digits :: "nat \<Rightarrow> string" where
  "nat_digits n =
     (if n < 10 then [char_of (48 + n)]
      else nat_digits (n div 10) @ [char_of (48 + n mod 10)])"

definition str_int :: "int \<Rightarrow> string" where
  "str_int i = (if i < 0 then CHR ''-'' # nat_digits (nat (- i)) else nat_digits (nat i))"

text \<open>
  \<^verbatim>\<open>str.strip()\<close> removes the characters of \<^verbatim>\<open>str.isspace\<close> from both ends; below
  256 they are the code points 9 to 13, 28 to 32, 133 and 160.
\<close>

definition py_isspace :: "char \<Rightarrow> bool" where
  "py_isspace c = ((of_char c :: nat) \<in> set [9, 10, 11, 12, 13, 28, 29, 30, 31, 32, 133, 160])"

definition py_strip :: "string \<Rightarrow> string" where
  "py_strip s = rev (dropWhile py_isspace (rev (dropWhile py_isspace s)))"

section \<open>The environment of a run\<close>

text \<open>
  What the program reads from outside is a parameter of the model: the credential of the
  process environment, the answer of \<^verbatim>\<open>requests.post\<close> (an exception, or a response
  with its status and the outcome of \<^verbatim>\<open>response.json()\<close>), and the two parsers of the
  standard library, \<^verbatim>\<open>json.loads\<close> (on a \<^verbatim>\<open>str\<close> and on \<^verbatim>\<open>bytes\<close>) and
  \<^verbatim>\<open>ast.literal_eval\<close>. The theorems that quantify over the environment hold for
  every behaviour of these collaborators.
\<close>

record response =
  status_code :: int
  json :: "exn + pyval"

record env =
  OPENROUTER_API_KEY :: "string option"
  requests_post :: "string \<Rightarrow> pyval \<Rightarrow> pyval \<Rightarrow> exn + response"
  json_loads_str :: "string \<Rightarrow> exn + pyval"
  json_loads_bytes :: "string \<Rightarrow> exn + pyval"
  literal_eval :: "string \<Rightarrow> exn + pyval"

text \<open>\<^verbatim>\<open>json.loads(s)\<close>: any object but a \<^verbatim>\<open>str\<close>, \<^verbatim>\<open>bytes\<close> or \<^verbatim>\<open>bytearray\<close> is a \<^verbatim>\<open>TypeError\<close>.\<close>

definition json_loads :: "env \<Rightarrow> pyval \<Rightarrow> exn + pyval" where
  "json_loads env s =
     (case s of
        PStr t \<Rightarrow> json_loads_str env t
      | PBytes b \<Rightarrow> json_loads_bytes env b
      | _ \<Rightarrow> Inl (Exn TypeError (''the JSON object must be str, bytes or bytearray, not '' @ type_name s)))"

section \<open>The response extractor: \<^verbatim>\<open>extract_json\<close>\<close>

text \<open>
  \<^verbatim>\<open>re.sub(r"```(?:json)?", "", text)\<close>: scanning from the left, each run of three
  backticks is deleted, together with the word \<^verbatim>\<open>json\<close> when it follows at once.
\<close>

fun strip_fences :: "string \<Rightarrow> string" where
  "strip_fences [] = []"
| "strip_fences (c # cs) =
     (if prefix ''```'' (c # cs)
      then (if prefix ''json'' (drop 2 cs) then strip_fences (drop 6 cs)
            else strip_fences (drop 2 cs))
      else c # strip_fences cs)"

definition re_sub_fences :: "pyval \<Rightarrow> exn + string" where
  "re_sub_fences text =
     (case text of
        PStr s \<Rightarrow> Inr (strip_fences s)
      | PBytes b \<Rightarrow> Inl (Exn TypeError ''cannot use a string pattern on a bytes-like object'')
      | _ \<Rightarrow> Inl (Exn TypeError (''expected string or bytes-like object, got '' @ quoted (type_name text))))"

text \<open>
  \<^verbatim>\<open>re.search(r"\{.*\}", text, re.DOTALL)\<close>: the match starts at the first opening
  brace and, the star being greedy and the dot matching every character, ends at the
  last closing brace after it; there is no match when no closing brace follows the
  first opening one.
\<close>

definition brace_span :: "string \<Rightarrow> string option" where
  "brace_span text =
     (let from_open = dropWhile (\<lambda>c. c \<noteq> CHR ''{'') text;
          to_close = dropWhile (\<lambda>c. c \<noteq> CHR ''}'') (rev from_open)
      in if to_close = [] then None else Some (rev to_close))"

text \<open>\<^verbatim>\<open>match.group().replace('\n', ' ').replace('\r', '')\<close>.\<close>

definition cleaned :: "string \<Rightarrow> string" where
  "cleaned m = filter (\<lambda>c. c \<noteq> CHR 0x0D) (map (\<lambda>c. if c = CHR 0x0A then CHR '' '' else c) m)"

definition fallback :: pyval where
  "fallback =
     PDict [(''good_clausess'', PList []),
            (''bad_clausess'', PList []),
            (''error'', PStr ''Could not extract valid JSON from the model response.'')]"

definition extract_json_try :: "env \<Rightarrow> pyval \<Rightarrow> pyval comp" where
  "extract_json_try env text =
     andthen (lift (re_sub_fences text)) (\<lambda>subbed.
       let text' = py_strip subbed in
       case brace_span text' of
         Some m \<Rightarrow>
           traced (Strict_parse (PStr (cleaned m))) (lift (json_loads env (PStr (cleaned m))))
       | None \<Rightarrow>
           traced (Literal_parse text') (lift (literal_eval env text')))"

definition extract_json :: "env \<Rightarrow> pyval \<Rightarrow> pyval comp" where
  "extract_json env text = try_except (extract_json_try env text) (\<lambda>e. ret fallback)"

section \<open>The analysis pipeline: \<^verbatim>\<open>analyze_with_mistral\<close>\<close>

definition OPENROUTER_API_URL :: string where
  "OPENROUTER_API_URL = ''https://openrouter.ai/api/v1/chat/completions''"

definition headers :: "env \<Rightarrow> pyval" where
  "headers env =
     PDict [(''Authorization'',
             PStr (''Bearer '' @ (case OPENROUTER_API_KEY env of None \<Rightarrow> ''None'' | Some k \<Rightarrow> k))),
            (''Content-Type'', PStr ''application/json'')]"

definition system_message :: string where
  "system_message = ''You are a legal expert who analyzes contract clauses.''"

definition user_message :: "string \<Rightarrow> string" where
  \<open>user_message legal_text =
     [CHR 0x0A] @
     ''        Analyze the following legal text and categorize each clause as either "good" or "bad" for a typical contract participant.'' @ [CHR 0x0A] @
     ''        Good clauses are those that are fair, balanced, and protect both parties' interests.'' @ [CHR 0x0A] @
     ''        Bad clauses are those that are one-sided, potentially exploitative, or have hidden implications.'' @ [CHR 0x0A] @
     ''        '' @ [CHR 0x0A] @
     ''        Format your response as JSON with exactly two keys:'' @ [CHR 0x0A] @
     ''        1. "good_clausess": A list of strings, where each string is a good clause'' @ [CHR 0x0A] @
     ''        2. "bad_clausess": A list of strings, where each string is a bad clause'' @ [CHR 0x0A] @
     ''        '' @ [CHR 0x0A] @
     ''        Respond only with the JSON object, no additional text or explanation.'' @ [CHR 0x0A] @
     ''        '' @ [CHR 0x0A] @
     ''        Legal text to analyze:'' @ [CHR 0x0A] @
     ''        '' @ legal_text @ [CHR 0x0A] @
     ''        ''\<close>

definition payload :: "string \<Rightarrow> pyval" where
  "payload legal_text =
     PDict [(''model'', PStr ''google/gemini-2.5-pro-exp-03-25:free''),
            (''messages'',
             PList [PDict [(''role'', PStr ''system''), (''content'', PStr system_message)],
                    PDict [(''role'', PStr ''user''), (''content'', PStr (user_message legal_text))]]),
            (''temperature'', PFloat ''0.3'')]"

text \<open>The mapping of every degraded path: an \<^verbatim>\<open>error\<close> and two empty lists.\<close>

definition degraded :: "string \<Rightarrow> pyval" where
  "degraded msg =
     PDict [(''error'', PStr msg), (''good_clausess'', PList []), (''bad_clausess'', PList [])]"

text \<open>\<^verbatim>\<open>not OPENROUTER_API_KEY\<close>: the variable is unset, or set to the empty string.\<close>

definition api_key_unset :: "env \<Rightarrow> bool" where
  "api_key_unset env = (case OPENROUTER_API_KEY env of None \<Rightarrow> True | Some k \<Rightarrow> k = [])"

text \<open>\<^verbatim>\<open>response_data["choices"][0]["message"]["content"]\<close>.\<close>

definition first_choice_content :: "pyval \<Rightarrow> pyval comp" where
  "first_choice_content response_data =
     andthen (lift (getitem_str response_data ''choices'')) (\<lambda>choices.
     andthen (lift (getitem_0 choices)) (\<lambda>choice.
     andthen (lift (getitem_str choice ''message'')) (\<lambda>message.
       lift (getitem_str message ''content''))))"

text \<open>\<^verbatim>\<open>"good_clausess" not in result or "bad_clausess" not in result\<close>.\<close>

definition keys_missing :: "pyval \<Rightarrow> bool comp" where
  "keys_missing result =
     andthen (lift (contains_str ''good_clausess'' result)) (\<lambda>has_good.
       if \<not> has_good then ret True
       else andthen (lift (contains_str ''bad_clausess'' result)) (\<lambda>has_bad. ret (\<not> has_bad)))"

text \<open>The dict both \<^verbatim>\<open>return\<close> statements of the success path build.\<close>

definition clause_lists :: "pyval \<Rightarrow> pyval comp" where
  "clause_lists result =
     andthen (lift (py_get result ''good_clausess'' (PList []))) (\<lambda>good.
     andthen (lift (py_get result ''bad_clausess'' (PList []))) (\<lambda>bad.
       ret (PDict [(''good_clausess'', good), (''bad_clausess'', bad)])))"

definition analyze_with_mistral_try :: "env \<Rightarrow> string \<Rightarrow> pyval comp" where
  "analyze_with_mistral_try env legal_text =
     (if api_key_unset env then ret (degraded ''OpenRouter API key not configured'')
      else
        andthen (traced (Provider_call OPENROUTER_API_URL (headers env) (payload legal_text))
                   (lift (requests_post env OPENROUTER_API_URL (headers env) (payload legal_text))))
          (\<lambda>response.
            if status_code response = 200 then
              andthen (lift (json response)) (\<lambda>response_data.
              andthen (first_choice_content response_data) (\<lambda>response_content.
              andthen (extract_json env response_content) (\<lambda>json_text.
              andthen (case json_text of
                         PDict d \<Rightarrow> ret json_text
                       | _ \<Rightarrow> traced (Strict_parse json_text) (lift (json_loads env json_text)))
                (\<lambda>result.
              andthen (keys_missing result) (\<lambda>missing.
                if missing then clause_lists result else clause_lists result)))))
            else ret (degraded (''API request failed: '' @ str_int (status_code response)))))"

text \<open>The three \<^verbatim>\<open>except\<close> clauses, in the order of the source.\<close>

definition analyze_with_mistral_except :: "exn \<Rightarrow> pyval comp" where
  "analyze_with_mistral_except e =
     (if isinstance_RequestException e then ret (degraded (''Request error: '' @ str_exn e))
      else if isinstance_JSONDecodeError e then ret (degraded ''Failed to parse AI response'')
      else ret (degraded (''Analysis error: '' @ str_exn e)))"

definition analyze_with_mistral :: "env \<Rightarrow> string \<Rightarrow> pyval comp" where
  "analyze_with_mistral env legal_text =
     try_except (analyze_with_mistral_try env legal_text) analyze_with_mistral_except"

section \<open>The request handler: \<^verbatim>\<open>analyze_clauses\<close>\<close>

text \<open>
  \<^verbatim>\<open>jsonify\<close> serialises the values of JSON and tuples; the first \<^verbatim>\<open>bytes\<close>,
  complex number or \<^verbatim>\<open>Ellipsis\<close> it meets is a \<^verbatim>\<open>TypeError\<close> naming its class. The
  body of a response is kept as the value that was serialised.
\<close>

definition first_some :: "'a option list \<Rightarrow> 'a option" where
  "first_some os = (case List.find (\<lambda>r. r \<noteq> None) os of Some r \<Rightarrow> r | None \<Rightarrow> None)"

fun unserialisable :: "pyval \<Rightarrow> string option" where
  "unserialisable (PComplex x y) = Some ''complex''"
| "unserialisable PEllipsis = Some ''ellipsis''"
| "unserialisable (PBytes b) = Some ''bytes''"
| "unserialisable (PList xs) = first_some (map unserialisable xs)"
| "unserialisable (PTuple xs) = first_some (map unserialisable xs)"
| "unserialisable (PDict d) = first_some (map (\<lambda>kv. unserialisable (snd kv)) d)"
| "unserialisable v = None"

definition jsonify :: "pyval \<Rightarrow> exn + pyval" where
  "jsonify v =
     (case unserialisable v of
        None \<Rightarrow> Inr v
      | Some cls \<Rightarrow> Inl (Exn TypeError (''Object of type '' @ cls @ '' is not JSON serializable'')))"

text \<open>
  The handler receives the outcome of \<^verbatim>\<open>request.get_json()\<close>: the parsed body,
  \<^verbatim>\<open>None\<close>, or the exception the framework raises. It answers with a status and a body.

  \<^verbatim>\<open>not legal_text or not isinstance(legal_text, str) or legal_text.strip() == ""\<close>:
  the text that goes on to the pipeline is a non-empty \<^verbatim>\<open>str\<close> that is not blank.
\<close>

definition accepted_text :: "pyval \<Rightarrow> string option" where
  "accepted_text legal_text =
     (if \<not> truthy legal_text then None
      else case legal_text of
             PStr s \<Rightarrow> if py_strip s = [] then None else Some s
           | _ \<Rightarrow> None)"

definition legal_text_missing :: "pyval \<Rightarrow> bool comp" where
  "legal_text_missing data =
     (if \<not> truthy data then ret True
      else andthen (lift (contains_str ''legal_text'' data)) (\<lambda>has. ret (\<not> has)))"

definition respond :: "int \<Rightarrow> pyval \<Rightarrow> (int \<times> pyval) comp" where
  "respond status obj = andthen (lift (jsonify obj)) (\<lambda>body. ret (status, body))"

definition analyze_clauses_try :: "env \<Rightarrow> exn + pyval \<Rightarrow> (int \<times> pyval) comp" where
  "analyze_clauses_try env get_json =
     andthen (lift get_json) (\<lambda>data.
     andthen (legal_text_missing data) (\<lambda>missing.
       if missing then respond 400 (PDict [(''error'', PStr ''Missing 'legal_text' in request body'')])
       else
         andthen (lift (getitem_str data ''legal_text'')) (\<lambda>legal_text.
           case accepted_text legal_text of
             None \<Rightarrow> respond 400 (PDict [(''error'', PStr ''Invalid or empty legal text provided'')])
           | Some s \<Rightarrow>
               andthen (traced (Pipeline_call s) (analyze_with_mistral env s))
                 (\<lambda>analysis_result. respond 200 analysis_result))))"

definition analyze_clauses :: "env \<Rightarrow> exn + pyval \<Rightarrow> (int \<times> pyval) comp" where
  "analyze_clauses env get_json =
     try_except (analyze_clauses_try env get_json)
       (\<lambda>e. respond 500 (PDict [(''error'', PStr (''Internal server error: '' @ str_exn e))]))"

section \<open>A concrete environment\<close>

text \<open>
  The closed examples below need parsers that compute. \<open>json_text_loads\<close> is a model of
  \<^verbatim>\<open>json.loads\<close> on a \<^verbatim>\<open>str\<close>, in its default strict mode: the grammar of
  \<^verbatim>\<open>json.scanner\<close> and \<^verbatim>\<open>json.decoder\<close>, with the constants \<^verbatim>\<open>NaN\<close>,
  \<^verbatim>\<open>Infinity\<close> and \<^verbatim>\<open>-Infinity\<close> that Python accepts. Two things are not
  modelled: the limits of the interpreter (recursion depth, digits of an integer), and
  an escape \<^verbatim>\<open>\uXXXX\<close> above code point 255, which has no image in \<open>string\<close> and is
  refused. The message of a \<^verbatim>\<open>JSONDecodeError\<close>, which the program only logs, is a
  fixed text.

  The text is cut into tokens, and the tokens are read by a machine with a stack of the
  containers that are still open.
\<close>

datatype token =
    TLBrace | TRBrace | TLBrack | TRBrack | TLParen | TRParen | TComma | TColon
  | TAtom pyval

definition hex_value :: "char \<Rightarrow> nat option" where
  "hex_value c =
     (let n = (of_char c :: nat) in
      if 48 \<le> n \<and> n \<le> 57 then Some (n - 48)
      else if 97 \<le> n \<and> n \<le> 102 then Some (n - 87)
      else if 65 \<le> n \<and> n \<le> 70 then Some (n - 55)
      else None)"

fun hex_number :: "nat \<Rightarrow> string \<Rightarrow> nat option" where
  "hex_number acc [] = Some acc"
| "hex_number acc (c # cs) =
     (case hex_value c of None \<Rightarrow> None | Some d \<Rightarrow> hex_number (16 * acc + d) cs)"

definition json_escape :: "char \<Rightarrow> char option" where
  "json_escape e =
     (if e = CHR 0x22 then Some (CHR 0x22)
      else if e = CHR 0x5C then Some (CHR 0x5C)
      else if e = CHR ''/'' then Some (CHR ''/'')
      else if e = CHR ''b'' then Some (CHR 0x08)
      else if e = CHR ''f'' then Some (CHR 0x0C)
      else if e = CHR ''n'' then Some (CHR 0x0A)
      else if e = CHR ''r'' then Some (CHR 0x0D)
      else if e = CHR ''t'' then Some (CHR 0x09)
      else None)"

text \<open>
  The characters of a JSON string after its opening quote: the string read (collected
  in reverse in \<open>acc\<close>) and the count of the characters consumed, closing quote
  included (counted in \<open>n\<close>).
\<close>

fun json_string :: "string \<Rightarrow> nat \<Rightarrow> string \<Rightarrow> (string \<times> nat) option" where
  "json_string acc n [] = None"
| "json_string acc n (c # cs) =
     (if c = CHR 0x22 then Some (rev acc, n + 1)
      else if c = CHR 0x5C then
        (case cs of
           [] \<Rightarrow> None
         | e # cs' \<Rightarrow>
             if e = CHR ''u'' then
               (if length cs' < 4 then None
                else case hex_number 0 (take 4 cs') of
                       None \<Rightarrow> None
                     | Some k \<Rightarrow>
                         if k < 256 then json_string (char_of k # acc) (n + 6) (drop 4 cs')
                         else None)
             else (case json_escape e of
                     None \<Rightarrow> None
                   | Some ch \<Rightarrow> json_string (ch # acc) (n + 2) cs'))
      else if (of_char c :: nat) < 32 then None
      else json_string (c # acc) (n + 1) cs)"

text \<open>
  \<^verbatim>\<open>NUMBER_RE\<close>: \<^verbatim>\<open>(-?(?:0|[1-9][0-9]*))(\.[0-9]+)?([eE][-+]?[0-9]+)?\<close>. The three
  functions give the length of the integer part, of the fraction and of the exponent at
  the head of a text (0 when the optional group does not match).
\<close>

definition int_part_length :: "string \<Rightarrow> nat" where
  "int_part_length cs =
     (let sign = (if prefix ''-'' cs then 1 else 0);
          ds = takeWhile is_digit (drop sign cs)
      in if ds = [] then 0
         else if hd ds = CHR ''0'' then sign + 1
         else sign + length ds)"

definition fraction_length :: "string \<Rightarrow> nat" where
  "fraction_length cs =
     (let ds = takeWhile is_digit (drop 1 cs)
      in if prefix ''.'' cs \<and> ds \<noteq> [] then 1 + length ds else 0)"

definition exponent_length :: "string \<Rightarrow> nat" where
  "exponent_length cs =
     (let sign = (if prefix ''+'' (drop 1 cs) \<or> prefix ''-'' (drop 1 cs) then 1 else 0);
          ds = takeWhile is_digit (drop (1 + sign) cs)
      in if (prefix ''e'' cs \<or> prefix ''E'' cs) \<and> ds \<noteq> [] then 1 + sign + length ds else 0)"

text \<open>The number at the head of a text, with the count of its characters.\<close>

definition json_number :: "string \<Rightarrow> (pyval \<times> nat) option" where
  "json_number cs =
     (let i = int_part_length cs;
          f = fraction_length (drop i cs);
          e = exponent_length (drop (i + f) cs)
      in if i = 0 then None
         else if f = 0 \<and> e = 0 then Some (PInt (int_of_text (take i cs)), i)
         else Some (PFloat (take (i + f + e) cs), i + f + e))"

text \<open>
  The atom at the head of a text that is neither a string nor a bracket, in the order
  \<^verbatim>\<open>json.scanner\<close> tries them.
\<close>

definition json_atom :: "string \<Rightarrow> (pyval \<times> nat) option" where
  "json_atom cs =
     (if prefix ''null'' cs then Some (PNone, 4)
      else if prefix ''true'' cs then Some (PBool True, 4)
      else if prefix ''false'' cs then Some (PBool False, 5)
      else case json_number cs of
             Some r \<Rightarrow> Some r
           | None \<Rightarrow>
               if prefix ''NaN'' cs then Some (PFloat ''NaN'', 3)
               else if prefix ''Infinity'' cs then Some (PFloat ''Infinity'', 8)
               else if prefix ''-Infinity'' cs then Some (PFloat ''-Infinity'', 9)
               else None)"

definition punctuation :: "char \<Rightarrow> token option" where
  "punctuation c =
     (if c = CHR ''{'' then Some TLBrace
      else if c = CHR ''}'' then Some TRBrace
      else if c = CHR ''['' then Some TLBrack
      else if c = CHR '']'' then Some TRBrack
      else if c = CHR ''('' then Some TLParen
      else if c = CHR '')'' then Some TRParen
      else if c = CHR '','' then Some TComma
      else if c = CHR '':'' then Some TColon
      else None)"

definition json_whitespace :: "char \<Rightarrow> bool" where
  "json_whitespace c = (c = CHR '' '' \<or> c = CHR 0x09 \<or> c = CHR 0x0A \<or> c = CHR 0x0D)"

definition cons_token :: "token \<Rightarrow> token list option \<Rightarrow> token list option" where
  "cons_token t r = (case r of None \<Rightarrow> None | Some ts \<Rightarrow> Some (t # ts))"

fun json_lex :: "string \<Rightarrow> token list option" where
  "json_lex [] = Some []"
| "json_lex (c # cs) =
     (if json_whitespace c then json_lex cs
      else if c = CHR 0x22 then
        (case json_string [] 0 cs of
           None \<Rightarrow> None
         | Some (s, n) \<Rightarrow> cons_token (TAtom (PStr s)) (json_lex (drop n cs)))
      else if c = CHR ''('' \<or> c = CHR '')'' then None
      else case punctuation c of
             Some t \<Rightarrow> cons_token t (json_lex cs)
           | None \<Rightarrow>
               (case json_atom (c # cs) of
                  None \<Rightarrow> None
                | Some (v, n) \<Rightarrow> cons_token (TAtom v) (json_lex (drop (n - 1) cs))))"

text \<open>
  The machine. A frame is a container that is still open: a list or a tuple with the
  items read so far (in reverse; a tuple remembers whether a comma was seen), a dict
  with its entries, or a dict whose next value belongs to a key already read. The mode
  says what may come next. With \<open>py = False\<close> the machine reads JSON; with
  \<open>py = True\<close> it also reads tuples and a comma before a closing bracket.
\<close>

datatype frame =
    FList "pyval list"
  | FTuple "pyval list" bool
  | FDict "(string \<times> pyval) list"
  | FKey "(string \<times> pyval) list" string

datatype mode = Value | Value_or_close | After | Colon | Done pyval

text \<open>Storing under a key that is present replaces its value and keeps its place.\<close>

definition dict_set :: "string \<Rightarrow> pyval \<Rightarrow> (string \<times> pyval) list \<Rightarrow> (string \<times> pyval) list" where
  "dict_set k v es =
     (if map_of es k = None then es @ [(k, v)]
      else map (\<lambda>kv. if fst kv = k then (k, v) else kv) es)"

fun complete :: "pyval \<Rightarrow> frame list \<Rightarrow> (mode \<times> frame list) option" where
  "complete v [] = Some (Done v, [])"
| "complete v (FList acc # st) = Some (After, FList (v # acc) # st)"
| "complete v (FTuple acc comma # st) = Some (After, FTuple (v # acc) comma # st)"
| "complete v (FKey es k # st) = Some (After, FDict (dict_set k v es) # st)"
| "complete v (FDict es # st) = None"

definition close_tuple :: "pyval list \<Rightarrow> bool \<Rightarrow> pyval" where
  "close_tuple acc comma =
     (case acc of
        [v] \<Rightarrow> if comma then PTuple [v] else v
      | _ \<Rightarrow> PTuple (rev acc))"

definition after_comma :: "bool \<Rightarrow> mode" where
  "after_comma py = (if py then Value_or_close else Value)"

fun step_after :: "bool \<Rightarrow> token \<Rightarrow> frame list \<Rightarrow> (mode \<times> frame list) option" where
  "step_after py TComma (FList acc # st) = Some (after_comma py, FList acc # st)"
| "step_after py TComma (FTuple acc comma # st) = Some (Value_or_close, FTuple acc True # st)"
| "step_after py TComma (FDict es # st) = Some (after_comma py, FDict es # st)"
| "step_after py TRBrack (FList acc # st) = complete (PList (rev acc)) st"
| "step_after py TRParen (FTuple acc comma # st) = complete (close_tuple acc comma) st"
| "step_after py TRBrace (FDict es # st) = complete (PDict es) st"
| "step_after py t st = None"

fun step_key :: "bool \<Rightarrow> token \<Rightarrow> (string \<times> pyval) list \<Rightarrow> frame list \<Rightarrow> (mode \<times> frame list) option" where
  "step_key may_close (TAtom (PStr k)) es st = Some (Colon, FKey es k # st)"
| "step_key may_close TRBrace es st = (if may_close then complete (PDict es) st else None)"
| "step_key may_close t es st = None"

fun step_value :: "bool \<Rightarrow> bool \<Rightarrow> token \<Rightarrow> frame list \<Rightarrow> (mode \<times> frame list) option" where
  "step_value py may_close t (FDict es # st) = step_key may_close t es st"
| "step_value py may_close (TAtom v) st = complete v st"
| "step_value py may_close TLBrack st = Some (Value_or_close, FList [] # st)"
| "step_value py may_close TLBrace st = Some (Value_or_close, FDict [] # st)"
| "step_value py may_close TLParen st = (if py then Some (Value_or_close, FTuple [] False # st) else None)"
| "step_value py may_close TRBrack (FList acc # st) =
     (if may_close then complete (PList (rev acc)) st else None)"
| "step_value py may_close TRParen (FTuple acc comma # st) =
     (if may_close then complete (close_tuple acc comma) st else None)"
| "step_value py may_close t st = None"

fun step :: "bool \<Rightarrow> mode \<Rightarrow> frame list \<Rightarrow> token \<Rightarrow> (mode \<times> frame list) option" where
  "step py Value st t = step_value py False t st"
| "step py Value_or_close st t = step_value py True t st"
| "step py After st t = step_after py t st"
| "step py Colon (FKey es k # st) TColon = Some (Value, FKey es k # st)"
| "step py Colon st t = None"
| "step py (Done v) st t = None"

fun run_tokens :: "bool \<Rightarrow> mode \<Rightarrow> frame list \<Rightarrow> token list \<Rightarrow> pyval option" where
  "run_tokens py m st [] = (case m of Done v \<Rightarrow> Some v | _ \<Rightarrow> None)"
| "run_tokens py m st (t # ts) =
     (case step py m st t of
        None \<Rightarrow> None
      | Some (m', st') \<Rightarrow> run_tokens py m' st' ts)"

definition json_text_loads :: "string \<Rightarrow> exn + pyval" where
  "json_text_loads s =
     (case json_lex s of
        None \<Rightarrow> Inl (Exn JSONDecodeError ''the text is not a JSON document'')
      | Some ts \<Rightarrow>
          (case run_tokens False Value [] ts of
             None \<Rightarrow> Inl (Exn JSONDecodeError ''the text is not a JSON document'')
           | Some v \<Rightarrow> Inr v))"

text \<open>
  \<^verbatim>\<open>json.loads\<close> on \<^verbatim>\<open>bytes\<close> decodes them first. Bytes of ASCII without a zero
  byte decode to the same characters; other bytes are reported as undecodable (a
  \<^verbatim>\<open>UnicodeDecodeError\<close> is a \<^verbatim>\<open>ValueError\<close>), which is what Python does for the
  bytes that are not UTF-8.
\<close>

definition json_bytes_loads :: "string \<Rightarrow> exn + pyval" where
  "json_bytes_loads b =
     (if list_all (\<lambda>c. 0 < (of_char c :: nat) \<and> (of_char c :: nat) < 128) b then json_text_loads b
      else Inl (Exn ValueError ''the bytes cannot be decoded''))"

text \<open>
  \<open>literal_fragment_eval\<close> is a model of \<^verbatim>\<open>ast.literal_eval\<close> on a fragment of
  Python's literals: \<^verbatim>\<open>None\<close>, \<^verbatim>\<open>True\<close>, \<^verbatim>\<open>False\<close>; a decimal integer
  without a leading zero, with a minus sign before it or not; a string between single
  or between double quotes with no backslash and no line break in it; lists, tuples in
  their parentheses and dicts with string keys, of such values; spaces and tabs between
  the tokens. On a text of the fragment it gives the value Python gives. Any other text
  is answered with a \<^verbatim>\<open>SyntaxError\<close>; Python accepts some of them (floats, escapes,
  adjacent strings, prefixes), and the closed examples use none of those.
\<close>

fun py_string :: "char \<Rightarrow> string \<Rightarrow> nat \<Rightarrow> string \<Rightarrow> (string \<times> nat) option" where
  "py_string q acc n [] = None"
| "py_string q acc n (c # cs) =
     (if c = q then Some (rev acc, n + 1)
      else if c = CHR 0x5C \<or> c = CHR 0x0A \<or> c = CHR 0x0D then None
      else py_string q (c # acc) (n + 1) cs)"

definition py_atom :: "string \<Rightarrow> (pyval \<times> nat) option" where
  "py_atom cs =
     (if prefix ''None'' cs then Some (PNone, 4)
      else if prefix ''True'' cs then Some (PBool True, 4)
      else if prefix ''False'' cs then Some (PBool False, 5)
      else let i = int_part_length cs
           in if i = 0 then None else Some (PInt (int_of_text (take i cs)), i))"

fun py_lex :: "string \<Rightarrow> token list option" where
  "py_lex [] = Some []"
| "py_lex (c # cs) =
     (if c = CHR '' '' \<or> c = CHR 0x09 then py_lex cs
      else if c = CHR 0x22 \<or> c = CHR 0x27 then
        (case py_string c [] 0 cs of
           None \<Rightarrow> None
         | Some (s, n) \<Rightarrow> cons_token (TAtom (PStr s)) (py_lex (drop n cs)))
      else case punctuation c of
             Some t \<Rightarrow> cons_token t (py_lex cs)
           | None \<Rightarrow>
               (case py_atom (c # cs) of
                  None \<Rightarrow> None
                | Some (v, n) \<Rightarrow> cons_token (TAtom v) (py_lex (drop (n - 1) cs))))"

definition literal_fragment_eval :: "string \<Rightarrow> exn + pyval" where
  "literal_fragment_eval s =
     (case py_lex s of
        None \<Rightarrow> Inl (Exn SyntaxError ''invalid syntax'')
      | Some ts \<Rightarrow>
          (case run_tokens True Value [] ts of
             None \<Rightarrow> Inl (Exn SyntaxError ''invalid syntax'')
           | Some v \<Rightarrow> Inr v))"

text \<open>
  The environment of the examples: a credential, a provider, and the parsers above. The
  provider \<open>provider_replies\<close> answers every request with status 200 and one choice
  whose message has the given content; \<open>provider_body\<close> answers with a status and the
  outcome of parsing its body; with \<open>provider_raises\<close> the request raises.
\<close>

definition python_env :: "string option \<Rightarrow> (string \<Rightarrow> pyval \<Rightarrow> pyval \<Rightarrow> exn + response) \<Rightarrow> env" where
  "python_env key provider =
     \<lparr> OPENROUTER_API_KEY = key,
       requests_post = provider,
       json_loads_str = json_text_loads,
       json_loads_bytes = json_bytes_loads,
       literal_eval = literal_fragment_eval \<rparr>"

definition completion :: "pyval \<Rightarrow> pyval" where
  "completion content =
     PDict [(''choices'',
             PList [PDict [(''message'',
                            PDict [(''role'', PStr ''assistant''), (''content'', content)])]])]"

definition provider_replies :: "pyval \<Rightarrow> string \<Rightarrow> pyval \<Rightarrow> pyval \<Rightarrow> exn + response" where
  "provider_replies content url hdrs body =
     Inr \<lparr> status_code = 200, json = Inr (completion content) \<rparr>"


definition provider_body :: "int \<Rightarrow> exn + pyval \<Rightarrow> string \<Rightarrow> pyval \<Rightarrow> pyval \<Rightarrow> exn + response" where
  "provider_body status body url hdrs sent = Inr \<lparr> status_code = status, json = body \<rparr>"

section \<open>Names for the paths of a run\<close>

text \<open>
  Two abbreviations for the statements below. \<open>model_reply\<close> is the content of the
  first choice when a run of the pipeline gets as far as the extractor: the credential
  is set, the provider answers with status 200, its body parses and has the expected
  shape. \<open>clause_mapping\<close> is the mapping the success path builds from a dict.
\<close>

definition model_reply :: "env \<Rightarrow> string \<Rightarrow> pyval option" where
  "model_reply env legal_text =
     (if api_key_unset env then None
      else case requests_post env OPENROUTER_API_URL (headers env) (payload legal_text) of
             Inl e \<Rightarrow> None
           | Inr response \<Rightarrow>
               if status_code response = 200 then
                 (case json response of
                    Inl e \<Rightarrow> None
                  | Inr response_data \<Rightarrow>
                      (case snd (first_choice_content response_data) of
                         Inl e \<Rightarrow> None
                       | Inr response_content \<Rightarrow> Some response_content))
               else None)"

definition clause_mapping :: "(string \<times> pyval) list \<Rightarrow> pyval" where
  "clause_mapping d =
     PDict [(''good_clausess'', case map_of d ''good_clausess'' of Some v \<Rightarrow> v | None \<Rightarrow> PList []),
            (''bad_clausess'', case map_of d ''bad_clausess'' of Some v \<Rightarrow> v | None \<Rightarrow> PList [])]"

section \<open>Replies and bodies of the examples\<close>

text \<open>The texts of a model reply that the closed examples run the program on.\<close>

definition prose_reply :: string where
  \<open>prose_reply = ''Here is the result: {"good_clauses": [], "bad_clauses": ["x"]} Thanks!''\<close>

definition fenced_reply :: string where
  \<open>fenced_reply =
     ''```json'' @ [CHR 0x0A] @ ''{"good_clauses":["a"],"bad_clauses":["b"]}'' @ [CHR 0x0A] @ ''```''\<close>


definition plain_reply :: string where
  "plain_reply = ''no json here''"

definition single_quoted_reply :: string where
  "single_quoted_reply = ''{'good_clausess': ['a'], 'bad_clausess': []}''"

definition carriage_reply :: string where
  \<open>carriage_reply = ''{"good_clausess": ["a'' @ [CHR 0x0D] @ ''b"],'' @ [CHR 0x0A] @ ''"bad_clausess": []}''\<close>

definition backtick_reply :: string where
  \<open>backtick_reply = ''{"good_clausess": ["use ```json and ``` here"], "bad_clausess": []}''\<close>

definition hello_reply :: string where
  "hello_reply = [CHR 0x27] @ ''hello'' @ [CHR 0x27]"

definition list_reply :: string where
  "list_reply = ''[1, 2]''"

text \<open>An environment with a credential whose provider answers with the given content.\<close>

definition replying :: "string \<Rightarrow> env" where
  "replying content = python_env (Some ''sk-test'') (provider_replies (PStr content))"

text \<open>An environment with a credential whose provider answers 200 with the given body.\<close>

definition answering :: "pyval \<Rightarrow> env" where
  "answering body = python_env (Some ''sk-test'') (provider_body 200 (Inr body))"

section \<open>Facts about the combinators and the operations on values\<close>

lemma andthen_lift_Inr: "andthen (lift (Inr v)) f = f v"
  by (simp add: andthen_def lift_def)

lemma andthen_lift_Inl: "andthen (lift (Inl e)) f = ([], Inl e)"
  by (simp add: andthen_def lift_def)

lemma andthen_ret: "andthen (ret v) f = f v"
  by (simp add: andthen_def ret_def)

lemma snd_andthen:
  "snd (andthen m f) = (case snd m of Inl e \<Rightarrow> Inl e | Inr v \<Rightarrow> snd (f v))"
  by (cases "snd m") (simp_all add: andthen_def)

lemma fst_andthen:
  "fst (andthen m f) = (case snd m of Inl e \<Rightarrow> fst m | Inr v \<Rightarrow> fst m @ fst (f v))"
  by (cases "snd m") (simp_all add: andthen_def)

lemma snd_try_except:
  "snd (try_except m h) = (case snd m of Inl e \<Rightarrow> snd (h e) | Inr v \<Rightarrow> Inr v)"
  by (simp add: try_except_def split: sum.splits)

lemma fst_try_except:
  "fst (try_except m h) = (case snd m of Inl e \<Rightarrow> fst m @ fst (h e) | Inr v \<Rightarrow> fst m)"
  by (simp add: try_except_def split: sum.splits)

lemma snd_lift: "snd (lift r) = r"
  by (simp add: lift_def)

lemma fst_lift: "fst (lift r) = []"
  by (simp add: lift_def)

lemma snd_ret: "snd (ret v) = Inr v"
  by (simp add: ret_def)

lemma fst_ret: "fst (ret v) = []"
  by (simp add: ret_def)

lemma snd_traced: "snd (traced c m) = snd m"
  by (simp add: traced_def)

lemma fst_traced: "fst (traced c m) = c # fst m"
  by (simp add: traced_def)

lemmas comp_simps = snd_andthen fst_andthen snd_try_except fst_try_except
  snd_lift fst_lift snd_ret fst_ret snd_traced fst_traced


lemma type_name_str: "type_name v = ''str'' \<longleftrightarrow> (\<exists>s. v = PStr s)"
  by (cases v) simp_all

lemma python_env_simps:
  "json_loads_str (python_env key provider) = json_text_loads"
  "json_loads_bytes (python_env key provider) = json_bytes_loads"
  "literal_eval (python_env key provider) = literal_fragment_eval"
  "OPENROUTER_API_KEY (python_env key provider) = key"
  "requests_post (python_env key provider) = provider"
  by (simp_all add: python_env_def)

text \<open>Subscripting fails with a \<^verbatim>\<open>KeyError\<close>, an \<^verbatim>\<open>IndexError\<close> or a \<^verbatim>\<open>TypeError\<close>.\<close>

lemma getitem_str_class:
  "getitem_str v k = Inl e \<Longrightarrow>
   \<not> isinstance_RequestException e \<and> \<not> isinstance_JSONDecodeError e"
  by (cases v) (auto split: option.splits)

lemma getitem_0_class:
  "getitem_0 v = Inl e \<Longrightarrow>
   \<not> isinstance_RequestException e \<and> \<not> isinstance_JSONDecodeError e"
  by (cases v) (auto split: list.splits)

lemma first_choice_content_class:
  assumes "snd (first_choice_content rd) = Inl e"
  shows "\<not> isinstance_RequestException e \<and> \<not> isinstance_JSONDecodeError e"
proof (cases "getitem_str rd ''choices''")
  case (Inl a)
  with assms have "a = e" by (simp add: first_choice_content_def comp_simps)
  with getitem_str_class [OF Inl] show ?thesis by simp
next
  case choices: (Inr cs)
  show ?thesis
  proof (cases "getitem_0 cs")
    case (Inl a)
    with assms choices have "a = e" by (simp add: first_choice_content_def comp_simps)
    with getitem_0_class [OF Inl] show ?thesis by simp
  next
    case choice: (Inr ch)
    show ?thesis
    proof (cases "getitem_str ch ''message''")
      case (Inl a)
      with assms choices choice have "a = e"
        by (simp add: first_choice_content_def comp_simps)
      with getitem_str_class [OF Inl] show ?thesis by simp
    next
      case (Inr msg)
      with assms choices choice have "getitem_str msg ''content'' = Inl e"
        by (simp add: first_choice_content_def comp_simps)
      from getitem_str_class [OF this] show ?thesis .
    qed
  qed
qed

section \<open>Facts about the extractor\<close>

lemma snd_extract_json:
  "snd (extract_json env text) =
     Inr (case snd (extract_json_try env text) of Inl e \<Rightarrow> fallback | Inr v \<Rightarrow> v)"
  by (simp add: extract_json_def comp_simps split: sum.splits)

lemma extract_json_span:
  assumes "brace_span (py_strip (strip_fences s)) = Some m"
  shows "extract_json env (PStr s) =
     ([Strict_parse (PStr (cleaned m))],
      Inr (case json_loads_str env (cleaned m) of Inl e \<Rightarrow> fallback | Inr v \<Rightarrow> v))"
  using assms
  by (simp add: prod_eq_iff extract_json_def extract_json_try_def re_sub_fences_def
      json_loads_def comp_simps split: sum.splits)

lemma extract_json_no_span:
  assumes "brace_span (py_strip (strip_fences s)) = None"
  shows "extract_json env (PStr s) =
     ([Literal_parse (py_strip (strip_fences s))],
      Inr (case literal_eval env (py_strip (strip_fences s)) of Inl e \<Rightarrow> fallback | Inr v \<Rightarrow> v))"
  using assms
  by (simp add: prod_eq_iff extract_json_def extract_json_try_def re_sub_fences_def
      comp_simps split: sum.splits)

lemma cleaned_concat:
  "cleaned m =
     concat (map (\<lambda>c. if c = CHR 0x0A then '' '' else if c = CHR 0x0D then [] else [c]) m)"
  by (induction m) (simp_all add: cleaned_def)

lemma prefix_Cons_left: "prefix (x # xs) ys \<longleftrightarrow> (\<exists>zs. ys = x # zs \<and> prefix xs zs)"
  by (cases ys) auto

lemma strip_fences_json:
  "prefix ''```'' (c # cs) \<Longrightarrow> prefix ''json'' (drop 2 cs) \<Longrightarrow>
   strip_fences (c # cs) = strip_fences (drop 6 cs)"
  by (subst strip_fences.simps(2)) (simp only: if_True)

lemma strip_fences_bare:
  "prefix ''```'' (c # cs) \<Longrightarrow> \<not> prefix ''json'' (drop 2 cs) \<Longrightarrow>
   strip_fences (c # cs) = strip_fences (drop 2 cs)"
  by (subst strip_fences.simps(2)) (simp only: if_True if_False)

lemma strip_fences_keep:
  "\<not> prefix ''```'' (c # cs) \<Longrightarrow> strip_fences (c # cs) = c # strip_fences cs"
  by (subst strip_fences.simps(2)) (simp only: if_False)

text \<open>A backtick at the head of the result was at the head of the text; so were two.\<close>

lemma strip_fences_tick1:
  assumes "prefix [CHR 0x60] (strip_fences s)"
  shows "prefix [CHR 0x60] s"
proof (cases s)
  case Nil
  with assms show ?thesis by simp
next
  case (Cons c cs)
  show ?thesis
  proof (cases "prefix ''```'' (c # cs)")
    case True
    then have "c = CHR 0x60" by simp
    with Cons show ?thesis by simp
  next
    case False
    from assms have "prefix [CHR 0x60] (c # strip_fences cs)"
      unfolding Cons strip_fences_keep [OF False] .
    with Cons show ?thesis by simp
  qed
qed

lemma strip_fences_tick2:
  assumes "prefix [CHR 0x60, CHR 0x60] (strip_fences s)"
  shows "prefix [CHR 0x60, CHR 0x60] s"
proof (cases s)
  case Nil
  with assms show ?thesis by simp
next
  case (Cons c cs)
  show ?thesis
  proof (cases "prefix ''```'' (c # cs)")
    case True
    then have "c = CHR 0x60" and "prefix [CHR 0x60] cs"
      by (auto simp: prefix_Cons_left)
    with Cons show ?thesis by simp
  next
    case False
    from assms have "prefix [CHR 0x60, CHR 0x60] (c # strip_fences cs)"
      unfolding Cons strip_fences_keep [OF False] .
    then have "c = CHR 0x60" and "prefix [CHR 0x60] (strip_fences cs)"
      by auto
    with strip_fences_tick1 [of cs] Cons show ?thesis by simp
  qed
qed

lemma no_fence_left: "\<not> sublist ''```'' (strip_fences s)"
proof (induction s rule: strip_fences.induct)
  case 1
  show ?case by simp
next
  case (2 c cs)
  show ?case
  proof (cases "prefix ''```'' (c # cs)")
    case True
    show ?thesis
    proof (cases "prefix ''json'' (drop 2 cs)")
      case j: True
      show ?thesis
        unfolding strip_fences_json [OF True j] by (rule "2.IH"(1) [OF True j])
    next
      case j: False
      show ?thesis
        unfolding strip_fences_bare [OF True j] by (rule "2.IH"(2) [OF True j])
    qed
  next
    case False
    from "2.IH"(3) [OF False] have ih: "\<not> sublist ''```'' (strip_fences cs)" .
    have "\<not> prefix ''```'' (c # strip_fences cs)"
    proof
      assume "prefix ''```'' (c # strip_fences cs)"
      then have c: "c = CHR 0x60" and "prefix [CHR 0x60, CHR 0x60] (strip_fences cs)"
        by auto
      from strip_fences_tick2 [OF this(2)] c False show False by simp
    qed
    with ih show ?thesis
      unfolding strip_fences_keep [OF False] sublist_Cons_right by blast
  qed
qed

lemma subseq_strip_fences: "subseq (strip_fences s) s"
proof (induction s rule: strip_fences.induct)
  case 1
  show ?case by simp
next
  case (2 c cs)
  have d: "subseq (drop n cs) (c # cs)" for n
    by (rule list_emb_Cons) (rule sublist_imp_subseq, rule sublist_drop)
  show ?case
  proof (cases "prefix ''```'' (c # cs)")
    case True
    show ?thesis
    proof (cases "prefix ''json'' (drop 2 cs)")
      case j: True
      show ?thesis
        unfolding strip_fences_json [OF True j]
        by (rule subseq_order.trans [OF "2.IH"(1) [OF True j] d])
    next
      case j: False
      show ?thesis
        unfolding strip_fences_bare [OF True j]
        by (rule subseq_order.trans [OF "2.IH"(2) [OF True j] d])
    qed
  next
    case False
    from "2.IH"(3) [OF False] show ?thesis
      unfolding strip_fences_keep [OF False] by (rule subseq_Cons2)
  qed
qed

section \<open>Facts about the pipeline\<close>


lemma snd_except_other:
  "\<not> isinstance_RequestException e \<Longrightarrow> \<not> isinstance_JSONDecodeError e \<Longrightarrow>
   snd (analyze_with_mistral_except e) = Inr (degraded (''Analysis error: '' @ str_exn e))"
  by (simp add: analyze_with_mistral_except_def snd_ret)

lemma snd_clause_lists:
  "snd (clause_lists (PDict d)) = Inr (clause_mapping d)"
  by (simp add: clause_lists_def clause_mapping_def comp_simps)


lemma snd_keys_missing_dict: "\<exists>b. snd (keys_missing (PDict d)) = Inr b"
  by (auto simp: keys_missing_def comp_simps)

lemma case_json_text:
  "(case json_text of PDict d \<Rightarrow> ret json_text
     | _ \<Rightarrow> traced (Strict_parse json_text) (lift (json_loads env json_text))) =
   (if type_name json_text = ''dict'' then ret json_text
    else traced (Strict_parse json_text) (lift (json_loads env json_text)))"
  by (cases json_text) simp_all

text \<open>What the \<^verbatim>\<open>try\<close> block computes once the reply has reached the extractor.\<close>

lemma pipeline_on_reply:
  assumes "model_reply env t = Some c"
  shows "snd (analyze_with_mistral_try env t) =
     (case snd (extract_json env c) of
        Inl e \<Rightarrow> Inl e
      | Inr json_text \<Rightarrow>
          (case (if type_name json_text = ''dict'' then Inr json_text else json_loads env json_text) of
             Inl e \<Rightarrow> Inl e
           | Inr result \<Rightarrow>
               (case snd (keys_missing result) of
                  Inl e \<Rightarrow> Inl e
                | Inr missing \<Rightarrow> snd (clause_lists result))))"
proof -
  from assms have k: "\<not> api_key_unset env"
    by (simp add: model_reply_def split: if_splits)
  from assms obtain response where
    p: "requests_post env OPENROUTER_API_URL (headers env) (payload t) = Inr response"
    by (auto simp: model_reply_def split: if_splits sum.splits)
  from assms k p have s: "status_code response = 200"
    by (simp add: model_reply_def split: if_splits)
  from assms k p s obtain rd where j: "json response = Inr rd"
    by (auto simp: model_reply_def split: sum.splits)
  from assms k p s j have f: "snd (first_choice_content rd) = Inr c"
    by (auto simp: model_reply_def split: sum.splits)
  show ?thesis
    unfolding analyze_with_mistral_try_def case_json_text
    by (simp add: k p s j f comp_simps split: sum.splits)
qed


lemma pipeline_dict:
  assumes "model_reply env t = Some c" and "snd (extract_json env c) = Inr (PDict d)"
  shows "snd (analyze_with_mistral env t) = Inr (clause_mapping d)"
proof -
  obtain b where "snd (keys_missing (PDict d)) = Inr b"
    using snd_keys_missing_dict by blast
  with assms(2) have "snd (analyze_with_mistral_try env t) = Inr (clause_mapping d)"
    by (simp add: pipeline_on_reply [OF assms(1)] snd_clause_lists)
  then show ?thesis by (simp add: analyze_with_mistral_def snd_try_except)
qed

lemma pipeline_loads_raises:
  assumes "model_reply env t = Some c" and "snd (extract_json env c) = Inr v"
    and "type_name v \<noteq> ''dict''" and "json_loads env v = Inl e"
  shows "snd (analyze_with_mistral env t) = snd (analyze_with_mistral_except e)"
proof -
  from assms(2-4) have "snd (analyze_with_mistral_try env t) = Inl e"
    by (simp add: pipeline_on_reply [OF assms(1)])
  then show ?thesis by (simp add: analyze_with_mistral_def snd_try_except)
qed

lemma model_reply_replying: "model_reply (replying content) t = Some (PStr content)"
  by (simp add: model_reply_def replying_def api_key_unset_def python_env_simps
      provider_replies_def first_choice_content_def completion_def comp_simps)

lemma unserialisable_degraded: "unserialisable (degraded msg) = None"
  by (simp add: degraded_def first_some_def)

text \<open>The mappings of the degraded paths, written out.\<close>

lemma snd_except_mapping:
  "snd (analyze_with_mistral_except e) =
     Inr (PDict [(''error'',
                  PStr (if isinstance_RequestException e then ''Request error: '' @ str_exn e
                        else if isinstance_JSONDecodeError e then ''Failed to parse AI response''
                        else ''Analysis error: '' @ str_exn e)),
                 (''good_clausess'', PList []), (''bad_clausess'', PList [])])"
  by (simp add: analyze_with_mistral_except_def degraded_def snd_ret)




lemma pipeline_index_raises:
  assumes "\<not> api_key_unset env"
    and "requests_post env OPENROUTER_API_URL (headers env) (payload t) = Inr response"
    and "status_code response = 200"
    and "json response = Inr response_data"
    and "snd (first_choice_content response_data) = Inl e"
  shows "snd (analyze_with_mistral env t) = snd (analyze_with_mistral_except e)"
proof -
  from assms have "snd (analyze_with_mistral_try env t) = Inl e"
    by (simp add: analyze_with_mistral_try_def comp_simps)
  then show ?thesis by (simp add: analyze_with_mistral_def snd_try_except)
qed

lemma model_reply_reached:
  assumes "\<not> api_key_unset env"
    and "requests_post env OPENROUTER_API_URL (headers env) (payload t) = Inr response"
    and "status_code response = 200"
    and "json response = Inr response_data"
    and "snd (first_choice_content response_data) = Inr c"
  shows "model_reply env t = Some c"
  using assms by (simp add: model_reply_def)

lemma extract_json_not_str:
  assumes "type_name text \<noteq> ''str''"
  shows "extract_json env text = ([], Inr fallback)"
  using assms
  by (cases "text")
    (simp_all add: prod_eq_iff extract_json_def extract_json_try_def re_sub_fences_def comp_simps)


section \<open>Facts about the handler\<close>




lemma handler_key_present:
  assumes "map_of d ''legal_text'' = Some v"
  shows "analyze_clauses_try env (Inr (PDict d)) =
     (case accepted_text v of
        None \<Rightarrow> respond 400 (PDict [(''error'', PStr ''Invalid or empty legal text provided'')])
      | Some s \<Rightarrow>
          andthen (traced (Pipeline_call s) (analyze_with_mistral env s))
            (\<lambda>analysis_result. respond 200 analysis_result))"
proof -
  from assms have "d \<noteq> []" by auto
  with assms show ?thesis
    by (simp add: analyze_clauses_try_def legal_text_missing_def andthen_lift_Inr andthen_ret)
qed


lemma handler_accepted:
  assumes "map_of d ''legal_text'' = Some (PStr t)" and "py_strip t \<noteq> []"
    and "snd (analyze_with_mistral env t) = Inr r" and "unserialisable r = None"
  shows "snd (analyze_clauses env (Inr (PDict d))) = Inr (200, r)"
proof -
  from assms(2) have "t \<noteq> []" by (auto simp: py_strip_def)
  with assms(2) have "accepted_text (PStr t) = Some t"
    by (simp add: accepted_text_def)
  with assms(3,4) show ?thesis
    by (simp add: analyze_clauses_def handler_key_present [OF assms(1)] respond_def jsonify_def
        comp_simps)
qed






section \<open>The examples, evaluated\<close>

lemma prose_span:
  \<open>brace_span (py_strip (strip_fences prose_reply)) =
     Some ''{"good_clauses": [], "bad_clauses": ["x"]}''\<close>
  unfolding prose_reply_def by code_simp

lemma prose_cleaned:
  \<open>cleaned ''{"good_clauses": [], "bad_clauses": ["x"]}'' =
     ''{"good_clauses": [], "bad_clauses": ["x"]}''\<close>
  by code_simp

lemma prose_loads:
  \<open>json_text_loads ''{"good_clauses": [], "bad_clauses": ["x"]}'' =
     Inr (PDict [(''good_clauses'', PList []), (''bad_clauses'', PList [PStr ''x''])])\<close>
  by code_simp

lemma fenced_span:
  \<open>brace_span (py_strip (strip_fences fenced_reply)) =
     Some ''{"good_clauses":["a"],"bad_clauses":["b"]}''\<close>
  unfolding fenced_reply_def by code_simp

lemma fenced_cleaned:
  \<open>cleaned ''{"good_clauses":["a"],"bad_clauses":["b"]}'' =
     ''{"good_clauses":["a"],"bad_clauses":["b"]}''\<close>
  by code_simp

lemma fenced_loads:
  \<open>json_text_loads ''{"good_clauses":["a"],"bad_clauses":["b"]}'' =
     Inr (PDict [(''good_clauses'', PList [PStr ''a'']), (''bad_clauses'', PList [PStr ''b''])])\<close>
  by code_simp




lemma plain_span: "brace_span (py_strip (strip_fences plain_reply)) = None"
  unfolding plain_reply_def by code_simp

lemma plain_stripped: "py_strip (strip_fences plain_reply) = plain_reply"
  unfolding plain_reply_def by code_simp

lemma plain_literal: "literal_fragment_eval plain_reply = Inl (Exn SyntaxError ''invalid syntax'')"
  unfolding plain_reply_def by code_simp

lemma single_quoted_span:
  "brace_span (py_strip (strip_fences single_quoted_reply)) = Some single_quoted_reply"
  unfolding single_quoted_reply_def by code_simp

lemma single_quoted_cleaned: "cleaned single_quoted_reply = single_quoted_reply"
  unfolding single_quoted_reply_def by code_simp

lemma single_quoted_loads:
  "json_text_loads single_quoted_reply =
     Inl (Exn JSONDecodeError ''the text is not a JSON document'')"
  unfolding single_quoted_reply_def by code_simp

lemma single_quoted_literal:
  "literal_fragment_eval single_quoted_reply =
     Inr (PDict [(''good_clausess'', PList [PStr ''a'']), (''bad_clausess'', PList [])])"
  unfolding single_quoted_reply_def by code_simp

lemma carriage_span:
  "brace_span (py_strip (strip_fences carriage_reply)) = Some carriage_reply"
  unfolding carriage_reply_def by code_simp

lemma carriage_cleaned:
  \<open>cleaned carriage_reply = ''{"good_clausess": ["ab"], "bad_clausess": []}''\<close>
  unfolding carriage_reply_def by code_simp

lemma carriage_spaced:
  \<open>map (\<lambda>c. if c = CHR 0x0A \<or> c = CHR 0x0D then CHR '' '' else c) carriage_reply =
     ''{"good_clausess": ["a b"], "bad_clausess": []}''\<close>
  unfolding carriage_reply_def by code_simp

lemma carriage_loads:
  \<open>json_text_loads ''{"good_clausess": ["ab"], "bad_clausess": []}'' =
     Inr (PDict [(''good_clausess'', PList [PStr ''ab'']), (''bad_clausess'', PList [])])\<close>
  by code_simp

lemma backtick_span:
  \<open>brace_span (py_strip (strip_fences backtick_reply)) =
     Some ''{"good_clausess": ["use  and  here"], "bad_clausess": []}''\<close>
  unfolding backtick_reply_def by code_simp

lemma backtick_cleaned:
  \<open>cleaned ''{"good_clausess": ["use  and  here"], "bad_clausess": []}'' =
     ''{"good_clausess": ["use  and  here"], "bad_clausess": []}''\<close>
  by code_simp

lemma backtick_loads:
  \<open>json_text_loads ''{"good_clausess": ["use  and  here"], "bad_clausess": []}'' =
     Inr (PDict [(''good_clausess'', PList [PStr ''use  and  here'']),
                 (''bad_clausess'', PList [])])\<close>
  by code_simp

lemma backtick_loads_unstripped:
  \<open>json_text_loads backtick_reply =
     Inr (PDict [(''good_clausess'', PList [PStr ''use ```json and ``` here'']),
                 (''bad_clausess'', PList [])])\<close>
  unfolding backtick_reply_def by code_simp

lemma hello_span: "brace_span (py_strip (strip_fences hello_reply)) = None"
  unfolding hello_reply_def by code_simp

lemma hello_literal:
  "literal_fragment_eval (py_strip (strip_fences hello_reply)) = Inr (PStr ''hello'')"
  unfolding hello_reply_def by code_simp

lemma hello_loads:
  "json_text_loads ''hello'' = Inl (Exn JSONDecodeError ''the text is not a JSON document'')"
  by code_simp

lemma list_span: "brace_span (py_strip (strip_fences list_reply)) = None"
  unfolding list_reply_def by code_simp

lemma list_literal:
  "literal_fragment_eval (py_strip (strip_fences list_reply)) = Inr (PList [PInt 1, PInt 2])"
  unfolding list_reply_def by code_simp


lemma extract_plain:
  "extract_json (replying c) (PStr plain_reply) = ([Literal_parse plain_reply], Inr fallback)"
  by (simp add: extract_json_no_span [OF plain_span] plain_stripped replying_def
      python_env_simps plain_literal)

lemma extract_hello:
  "snd (extract_json (replying c) (PStr hello_reply)) = Inr (PStr ''hello'')"
  by (simp add: extract_json_no_span [OF hello_span] replying_def python_env_simps hello_literal)

lemma extract_list:
  "snd (extract_json (replying c) (PStr list_reply)) = Inr (PList [PInt 1, PInt 2])"
  by (simp add: extract_json_no_span [OF list_span] replying_def python_env_simps list_literal)


section \<open>The claims about the extractor\<close>

text \<open>
  Claim C5. For every input, \<^verbatim>\<open>extract_json\<close> returns a value and never raises: when
  its \<^verbatim>\<open>try\<close> block raises, whatever the exception, the value is the fallback mapping,
  whose two clause lists are empty and which carries an error message; otherwise it is
  the value the block computed. The input may be any object, a string or not.
\<close>

theorem extract_json_never_raises:
  "\<exists>v. snd (extract_json env text) = Inr v \<and>
       (case snd (extract_json_try env text) of Inl e \<Rightarrow> v = fallback | Inr parsed \<Rightarrow> v = parsed) \<and>
       py_get fallback ''good_clausess'' PNone = Inr (PList []) \<and>
       py_get fallback ''bad_clausess'' PNone = Inr (PList []) \<and>
       (\<exists>msg. py_get fallback ''error'' PNone = Inr (PStr msg))"
  by (cases "snd (extract_json_try env text)") (simp_all add: snd_extract_json fallback_def)

theorem extract_json_never_raises_witness:
  "\<exists>v. snd (extract_json (replying plain_reply) (PStr plain_reply)) = Inr v \<and> v = fallback"
proof -
  have "brace_span plain_reply = None"
    using plain_span by (simp add: plain_stripped)
  then have "snd (extract_json_try (replying plain_reply) (PStr plain_reply)) =
      Inl (Exn SyntaxError ''invalid syntax'')"
    by (simp add: extract_json_try_def re_sub_fences_def plain_stripped
        replying_def python_env_simps plain_literal comp_simps)
  with extract_json_never_raises [of "replying plain_reply" "PStr plain_reply"]
  show ?thesis by auto
qed

text \<open>
  Claim C4. On the reply that wraps one JSON object in prose, and on the reply that
  wraps one in a fence with the tag \<^verbatim>\<open>json\<close>, the span from the first opening brace to
  the last closing brace is the object, the strict parser is called on it, and the
  extractor returns the mapping the object denotes. For every environment the value
  returned is what its strict parser makes of that span; with the parser of the
  concrete environment it is the mapping of the claim.
\<close>

theorem extract_json_embedded_object:
  \<open>brace_span (py_strip (strip_fences prose_reply)) =
      Some ''{"good_clauses": [], "bad_clauses": ["x"]}'' \<and>
    brace_span (py_strip (strip_fences fenced_reply)) =
      Some ''{"good_clauses":["a"],"bad_clauses":["b"]}'' \<and>
    extract_json env (PStr prose_reply) =
      ([Strict_parse (PStr ''{"good_clauses": [], "bad_clauses": ["x"]}'')],
       Inr (case json_loads_str env ''{"good_clauses": [], "bad_clauses": ["x"]}'' of
              Inl e \<Rightarrow> fallback | Inr v \<Rightarrow> v)) \<and>
    extract_json env (PStr fenced_reply) =
      ([Strict_parse (PStr ''{"good_clauses":["a"],"bad_clauses":["b"]}'')],
       Inr (case json_loads_str env ''{"good_clauses":["a"],"bad_clauses":["b"]}'' of
              Inl e \<Rightarrow> fallback | Inr v \<Rightarrow> v)) \<and>
    snd (extract_json (python_env key provider) (PStr prose_reply)) =
      Inr (PDict [(''good_clauses'', PList []), (''bad_clauses'', PList [PStr ''x''])]) \<and>
    snd (extract_json (python_env key provider) (PStr fenced_reply)) =
      Inr (PDict [(''good_clauses'', PList [PStr ''a'']), (''bad_clauses'', PList [PStr ''b''])])\<close>
proof -
  have p: \<open>extract_json e (PStr prose_reply) =
      ([Strict_parse (PStr ''{"good_clauses": [], "bad_clauses": ["x"]}'')],
       Inr (case json_loads_str e ''{"good_clauses": [], "bad_clauses": ["x"]}'' of
              Inl e \<Rightarrow> fallback | Inr v \<Rightarrow> v))\<close> for e
    by (simp only: extract_json_span [OF prose_span] prose_cleaned)
  have f: \<open>extract_json e (PStr fenced_reply) =
      ([Strict_parse (PStr ''{"good_clauses":["a"],"bad_clauses":["b"]}'')],
       Inr (case json_loads_str e ''{"good_clauses":["a"],"bad_clauses":["b"]}'' of
              Inl e \<Rightarrow> fallback | Inr v \<Rightarrow> v))\<close> for e
    by (simp only: extract_json_span [OF fenced_span] fenced_cleaned)
  have p': \<open>snd (extract_json (python_env key provider) (PStr prose_reply)) =
      Inr (PDict [(''good_clauses'', PList []), (''bad_clauses'', PList [PStr ''x''])])\<close>
    by (simp only: p python_env_simps prose_loads snd_conv sum.case)
  have f': \<open>snd (extract_json (python_env key provider) (PStr fenced_reply)) =
      Inr (PDict [(''good_clauses'', PList [PStr ''a'']), (''bad_clauses'', PList [PStr ''b''])])\<close>
    by (simp only: f python_env_simps fenced_loads snd_conv sum.case)
  from prose_span fenced_span p f p' f' show ?thesis by blast
qed

theorem extract_json_embedded_object_witness:
  \<open>snd (extract_json (replying prose_reply) (PStr prose_reply)) =
      Inr (PDict [(''good_clauses'', PList []), (''bad_clauses'', PList [PStr ''x''])]) \<and>
    snd (extract_json (replying fenced_reply) (PStr fenced_reply)) =
      Inr (PDict [(''good_clauses'', PList [PStr ''a'']), (''bad_clauses'', PList [PStr ''b''])])\<close>
  using extract_json_embedded_object [of _ "Some ''sk-test''" "provider_replies (PStr prose_reply)"]
    extract_json_embedded_object [of _ "Some ''sk-test''" "provider_replies (PStr fenced_reply)"]
  unfolding replying_def by blast

text \<open>
  Claim C3, at the input where the code departs from it. The reply is a mapping written
  with single quotes. A brace span is found and the strict parser rejects it; the
  extractor then returns the fallback at once. Its only call is the strict parse: the
  literal parse, which reads this text as the mapping, is never attempted.
\<close>

theorem strict_failure_skips_literal_parse:
  "extract_json (python_env key provider) (PStr single_quoted_reply) =
     ([Strict_parse (PStr single_quoted_reply)], Inr fallback) \<and>
   literal_fragment_eval single_quoted_reply =
     Inr (PDict [(''good_clausess'', PList [PStr ''a'']), (''bad_clausess'', PList [])])"
  by (simp add: extract_json_span [OF single_quoted_span] single_quoted_cleaned
      python_env_simps single_quoted_loads single_quoted_literal)

text \<open>
  The same for every environment and every text: once a brace span is found, a failure
  of the strict parser gives the fallback, and no literal parse is in the trace. The
  literal parse is attempted exactly when there is no brace span.
\<close>

lemma strict_failure_is_final:
  assumes "brace_span (py_strip (strip_fences s)) = Some m"
    and "json_loads_str env (cleaned m) = Inl e"
  shows "extract_json env (PStr s) = ([Strict_parse (PStr (cleaned m))], Inr fallback)"
  by (simp add: extract_json_span [OF assms(1)] assms(2))

lemma literal_parse_without_span:
  assumes "brace_span (py_strip (strip_fences s)) = None"
  shows "fst (extract_json env (PStr s)) = [Literal_parse (py_strip (strip_fences s))]"
  by (simp add: extract_json_no_span [OF assms])


text \<open>
  Claim C7, as stated, at the input where it fails. The span has a carriage return
  inside a clause and a newline between two entries. The text handed to the strict
  parser has a space for the newline and nothing for the carriage return: the clause
  \<^verbatim>\<open>a\rb\<close> is read as \<^verbatim>\<open>ab\<close>. With a space for both, as the claim has it, the
  parser would have been handed another text.
\<close>

theorem carriage_return_counterexample:
  \<open>extract_json (replying carriage_reply) (PStr carriage_reply) =
      ([Strict_parse (PStr ''{"good_clausess": ["ab"], "bad_clausess": []}'')],
       Inr (PDict [(''good_clausess'', PList [PStr ''ab'']), (''bad_clausess'', PList [])])) \<and>
    fst (extract_json (replying carriage_reply) (PStr carriage_reply)) \<noteq>
      [Strict_parse
         (PStr (map (\<lambda>c. if c = CHR 0x0A \<or> c = CHR 0x0D then CHR '' '' else c) carriage_reply))]\<close>
  by (simp add: extract_json_span [OF carriage_span] carriage_cleaned carriage_spaced
      replying_def python_env_simps carriage_loads)

text \<open>
  Claim C7, amended. When a brace span is found, the strict parser is called, once, on
  the span in which every newline has become a space and every carriage return has been
  deleted; every other character is kept. The extractor returns what the parser returns,
  or the fallback when it raises.
\<close>

theorem span_cleaned_before_strict_parse:
  assumes "brace_span (py_strip (strip_fences s)) = Some m"
  shows "extract_json env (PStr s) =
     ([Strict_parse
         (PStr (concat (map (\<lambda>c. if c = CHR 0x0A then '' '' else if c = CHR 0x0D then [] else [c]) m)))],
      Inr (case json_loads_str env
                  (concat (map (\<lambda>c. if c = CHR 0x0A then '' '' else if c = CHR 0x0D then [] else [c]) m)) of
             Inl e \<Rightarrow> fallback
           | Inr v \<Rightarrow> v))"
  unfolding cleaned_concat [symmetric] by (rule extract_json_span [OF assms])

theorem span_cleaned_before_strict_parse_witness:
  \<open>brace_span (py_strip (strip_fences carriage_reply)) = Some carriage_reply \<and>
    fst (extract_json (replying carriage_reply) (PStr carriage_reply)) =
      [Strict_parse (PStr ''{"good_clausess": ["ab"], "bad_clausess": []}'')]\<close>
  using span_cleaned_before_strict_parse [OF carriage_span, of "replying carriage_reply"]
  by (simp add: cleaned_concat [symmetric] carriage_cleaned carriage_span)

text \<open>
  Claim C8. The fence markers are deleted everywhere, not only at the two ends. For
  every text: no run of three backticks is left in the result of the substitution,
  which is the text with some characters deleted; and the search for the brace span,
  hence each parser, sees only the text after the substitution. So a clause that
  contains the marker is altered: in the example, the strict parser alone reads the
  clause with its backticks, and the extractor returns it without them and without the
  word \<^verbatim>\<open>json\<close> that followed the first marker.
\<close>

theorem fences_deleted_everywhere:
  \<open>\<not> sublist ''```'' (strip_fences s) \<and>
    subseq (strip_fences s) s \<and>
    fst (extract_json env (PStr s)) =
      (case brace_span (py_strip (strip_fences s)) of
         Some m \<Rightarrow> [Strict_parse (PStr (cleaned m))]
       | None \<Rightarrow> [Literal_parse (py_strip (strip_fences s))]) \<and>
    json_text_loads backtick_reply =
      Inr (PDict [(''good_clausess'', PList [PStr ''use ```json and ``` here'']),
                  (''bad_clausess'', PList [])]) \<and>
    snd (extract_json (python_env key provider) (PStr backtick_reply)) =
      Inr (PDict [(''good_clausess'', PList [PStr ''use  and  here'']),
                  (''bad_clausess'', PList [])])\<close>
proof -
  have t: "fst (extract_json env (PStr s)) =
      (case brace_span (py_strip (strip_fences s)) of
         Some m \<Rightarrow> [Strict_parse (PStr (cleaned m))]
       | None \<Rightarrow> [Literal_parse (py_strip (strip_fences s))])"
  proof (cases "brace_span (py_strip (strip_fences s))")
    case None
    then show ?thesis by (simp add: extract_json_no_span [OF None])
  next
    case (Some m)
    then show ?thesis by (simp add: extract_json_span [OF Some])
  qed
  have b: \<open>snd (extract_json (python_env key provider) (PStr backtick_reply)) =
      Inr (PDict [(''good_clausess'', PList [PStr ''use  and  here'']),
                  (''bad_clausess'', PList [])])\<close>
    by (simp add: extract_json_span [OF backtick_span] backtick_cleaned python_env_simps
        backtick_loads)
  from no_fence_left [of s] subseq_strip_fences [of s] t backtick_loads_unstripped b
  show ?thesis by blast
qed

theorem fences_deleted_everywhere_witness:
  \<open>\<not> sublist ''```'' (strip_fences backtick_reply) \<and>
    snd (extract_json (replying backtick_reply) (PStr backtick_reply)) =
      Inr (PDict [(''good_clausess'', PList [PStr ''use  and  here'']),
                  (''bad_clausess'', PList [])])\<close>
  using fences_deleted_everywhere
    [of backtick_reply _ "Some ''sk-test''" "provider_replies (PStr backtick_reply)"]
  unfolding replying_def by blast


section \<open>The claims about the pipeline\<close>




text \<open>
  Claim C2, at the input where the code departs from it. The reply has no JSON in it:
  no brace span, and the literal parse fails. The extractor returns its fallback, whose
  \<^verbatim>\<open>error\<close> explains the failure. The pipeline then copies the two clause lists out of
  the fallback and returns them alone: the mapping it returns has no \<^verbatim>\<open>error\<close>,
  unlike the mapping of every other degraded path.
\<close>

theorem parse_failure_error_is_dropped:
  "snd (extract_json (replying plain_reply) (PStr plain_reply)) = Inr fallback \<and>
   contains_str ''error'' fallback = Inr True \<and>
   snd (analyze_with_mistral (replying plain_reply) t) =
     Inr (PDict [(''good_clausess'', PList []), (''bad_clausess'', PList [])]) \<and>
   contains_str ''error'' (PDict [(''good_clausess'', PList []), (''bad_clausess'', PList [])]) =
     Inr False"
proof -
  have e: "snd (extract_json (replying plain_reply) (PStr plain_reply)) = Inr fallback"
    by (simp add: extract_plain)
  from pipeline_dict [OF model_reply_replying e [unfolded fallback_def]]
  have "snd (analyze_with_mistral (replying plain_reply) t) =
     Inr (PDict [(''good_clausess'', PList []), (''bad_clausess'', PList [])])"
    by (simp add: clause_mapping_def)
  with e show ?thesis by (simp add: fallback_def)
qed

text \<open>
  The same for every environment and every reply: whenever the extractor falls back,
  the pipeline returns the two empty lists and no \<^verbatim>\<open>error\<close>.
\<close>

lemma fallback_error_is_dropped:
  assumes "model_reply env t = Some c" and "snd (extract_json env c) = Inr fallback"
  shows "snd (analyze_with_mistral env t) =
     Inr (PDict [(''good_clausess'', PList []), (''bad_clausess'', PList [])])"
  using pipeline_dict [OF assms(1) assms(2) [unfolded fallback_def]]
  by (simp add: clause_mapping_def)


text \<open>
  Claim C9, as stated, at an input where it fails. The reply is a word between single
  quotes. There is no brace span, the literal parse gives the string \<^verbatim>\<open>hello\<close>, which
  is not a dict, and the strict parse of that string raises a \<^verbatim>\<open>JSONDecodeError\<close>. The
  clause for that class comes before the general one, so the \<^verbatim>\<open>error\<close> of the mapping
  is \<^verbatim>\<open>Failed to parse AI response\<close> and does not start with \<^verbatim>\<open>Analysis error:\<close>.
\<close>

theorem string_literal_counterexample:
  "snd (extract_json (replying hello_reply) (PStr hello_reply)) = Inr (PStr ''hello'') \<and>
   json_loads (replying hello_reply) (PStr ''hello'') =
     Inl (Exn JSONDecodeError ''the text is not a JSON document'') \<and>
   snd (analyze_with_mistral (replying hello_reply) ''Tenant pays rent.'') =
     Inr (PDict [(''error'', PStr ''Failed to parse AI response''),
                 (''good_clausess'', PList []), (''bad_clausess'', PList [])]) \<and>
   \<not> prefix ''Analysis error:'' ''Failed to parse AI response''"
proof -
  have l: "json_loads (replying hello_reply) (PStr ''hello'') =
     Inl (Exn JSONDecodeError ''the text is not a JSON document'')"
    by (simp add: json_loads_def replying_def python_env_simps hello_loads)
  have "snd (analyze_with_mistral (replying hello_reply) ''Tenant pays rent.'') =
     Inr (PDict [(''error'', PStr ''Failed to parse AI response''),
                 (''good_clausess'', PList []), (''bad_clausess'', PList [])])"
    by (simp add: pipeline_loads_raises [OF model_reply_replying extract_hello _ l]
        snd_except_mapping)
  with l show ?thesis by (simp add: extract_hello)
qed

text \<open>
  Claim C9, amended. Let the extractor return a value that is not a dict, and let the
  strict parse of it raise. The pipeline does not propagate the exception: it returns a
  mapping with an \<^verbatim>\<open>error\<close> and two empty lists, and the handler answers a valid
  request with status 200 and that mapping. The \<^verbatim>\<open>error\<close> is
  \<^verbatim>\<open>Analysis error:\<close> followed by the text of the exception when the exception is
  neither a \<^verbatim>\<open>RequestException\<close> nor a \<^verbatim>\<open>JSONDecodeError\<close>; so it is for every value
  that is neither a \<^verbatim>\<open>str\<close> nor \<^verbatim>\<open>bytes\<close> (a list, a tuple, a number, \<^verbatim>\<open>None\<close>), on
  which \<^verbatim>\<open>json.loads\<close> raises a \<^verbatim>\<open>TypeError\<close> that names the type. For a
  \<^verbatim>\<open>JSONDecodeError\<close>, which a string that is not JSON raises, the \<^verbatim>\<open>error\<close> is
  \<^verbatim>\<open>Failed to parse AI response\<close>.
\<close>

theorem non_dict_extraction_degrades:
  assumes "model_reply env t = Some c"
    and "snd (extract_json env c) = Inr v"
    and "type_name v \<noteq> ''dict''"
    and "json_loads env v = Inl e"
  shows "snd (analyze_with_mistral env t) =
      Inr (PDict [(''error'',
                   PStr (if isinstance_RequestException e then ''Request error: '' @ str_exn e
                         else if isinstance_JSONDecodeError e then ''Failed to parse AI response''
                         else ''Analysis error: '' @ str_exn e)),
                  (''good_clausess'', PList []), (''bad_clausess'', PList [])]) \<and>
    (type_name v \<noteq> ''str'' \<and> type_name v \<noteq> ''bytes'' \<longrightarrow>
       snd (analyze_with_mistral env t) =
         Inr (PDict [(''error'',
                      PStr (''Analysis error: the JSON object must be str, bytes or bytearray, not ''
                            @ type_name v)),
                     (''good_clausess'', PList []), (''bad_clausess'', PList [])])) \<and>
    (\<forall>body. map_of body ''legal_text'' = Some (PStr t) \<and> py_strip t \<noteq> [] \<longrightarrow>
       snd (analyze_clauses env (Inr (PDict body))) =
         Inr (200,
              PDict [(''error'',
                      PStr (if isinstance_RequestException e then ''Request error: '' @ str_exn e
                            else if isinstance_JSONDecodeError e then ''Failed to parse AI response''
                            else ''Analysis error: '' @ str_exn e)),
                     (''good_clausess'', PList []), (''bad_clausess'', PList [])]))"
proof -
  let ?msg = "if isinstance_RequestException e then ''Request error: '' @ str_exn e
              else if isinstance_JSONDecodeError e then ''Failed to parse AI response''
              else ''Analysis error: '' @ str_exn e"
  let ?r = "PDict [(''error'', PStr ?msg), (''good_clausess'', PList []), (''bad_clausess'', PList [])]"
  have a: "snd (analyze_with_mistral env t) = Inr ?r"
    unfolding pipeline_loads_raises [OF assms] by (rule snd_except_mapping)
  have b: "snd (analyze_with_mistral env t) =
         Inr (PDict [(''error'',
                      PStr (''Analysis error: the JSON object must be str, bytes or bytearray, not ''
                            @ type_name v)),
                     (''good_clausess'', PList []), (''bad_clausess'', PList [])])"
    if "type_name v \<noteq> ''str''" and "type_name v \<noteq> ''bytes''"
  proof -
    from that have "json_loads env v =
        Inl (Exn TypeError (''the JSON object must be str, bytes or bytearray, not '' @ type_name v))"
      by (cases v) (simp_all add: json_loads_def)
    with assms(4) have "e = Exn TypeError
        (''the JSON object must be str, bytes or bytearray, not '' @ type_name v)"
      by simp
    with a show ?thesis by simp
  qed
  have u: "unserialisable ?r = None"
    by (simp add: first_some_def)
  have c: "snd (analyze_clauses env (Inr (PDict body))) = Inr (200, ?r)"
    if "map_of body ''legal_text'' = Some (PStr t)" and "py_strip t \<noteq> []" for body
    by (rule handler_accepted [OF that a u])
  from a b c show ?thesis by blast
qed

theorem non_dict_extraction_degrades_witness:
  "snd (analyze_with_mistral (replying list_reply) ''Tenant pays rent.'') =
     Inr (PDict [(''error'',
                  PStr ''Analysis error: the JSON object must be str, bytes or bytearray, not list''),
                 (''good_clausess'', PList []), (''bad_clausess'', PList [])]) \<and>
   snd (analyze_clauses (replying list_reply)
          (Inr (PDict [(''legal_text'', PStr ''Tenant pays rent.'')]))) =
     Inr (200,
          PDict [(''error'',
                  PStr ''Analysis error: the JSON object must be str, bytes or bytearray, not list''),
                 (''good_clausess'', PList []), (''bad_clausess'', PList [])])"
proof -
  have l: "json_loads (replying list_reply) (PList [PInt 1, PInt 2]) =
     Inl (Exn TypeError ''the JSON object must be str, bytes or bytearray, not list'')"
    by (simp add: json_loads_def)
  have n: "type_name (PList [PInt 1, PInt 2]) \<noteq> ''dict''"
    by simp
  have s: "py_strip ''Tenant pays rent.'' \<noteq> []"
    by code_simp
  from non_dict_extraction_degrades [OF model_reply_replying extract_list n l, of "''Tenant pays rent.''"] s
  show ?thesis by auto
qed

text \<open>
  Claim C10, as stated, at an input where it fails. The provider answers 200 with one
  choice whose message has the content \<^verbatim>\<open>null\<close>: a choice without a content string.
  The indexing does not fail, it gives \<^verbatim>\<open>None\<close>. The mapping the pipeline returns has
  the two empty lists and no \<^verbatim>\<open>error\<close>, so none that starts with
  \<^verbatim>\<open>Analysis error:\<close>.
\<close>

theorem null_content_counterexample:
  "snd (first_choice_content
          (PDict [(''choices'',
             PList [PDict [(''message'',
                PDict [(''role'', PStr ''assistant''), (''content'', PNone)])]])])) =
     Inr PNone \<and>
   snd (analyze_with_mistral
          (answering
             (PDict [(''choices'',
                PList [PDict [(''message'',
                   PDict [(''role'', PStr ''assistant''), (''content'', PNone)])]])]))
          ''Tenant pays rent.'') =
     Inr (PDict [(''good_clausess'', PList []), (''bad_clausess'', PList [])]) \<and>
   contains_str ''error'' (PDict [(''good_clausess'', PList []), (''bad_clausess'', PList [])]) =
     Inr False"
proof -
  let ?body = "PDict [(''choices'',
                PList [PDict [(''message'',
                   PDict [(''role'', PStr ''assistant''), (''content'', PNone)])]])]"
  have f: "snd (first_choice_content ?body) = Inr PNone"
    by (simp add: first_choice_content_def comp_simps)
  have m: "model_reply (answering ?body) ''Tenant pays rent.'' = Some PNone"
    by (simp add: model_reply_def f answering_def api_key_unset_def python_env_simps
        provider_body_def)
  have e: "snd (extract_json (answering ?body) PNone) =
      Inr (PDict [(''good_clausess'', PList []), (''bad_clausess'', PList []),
                  (''error'', PStr ''Could not extract valid JSON from the model response.'')])"
    by (simp add: extract_json_not_str fallback_def)
  from pipeline_dict [OF m e] f show ?thesis
    by (simp add: clause_mapping_def)
qed

text \<open>
  Claim C10, amended. Let the provider answer with status 200 and a body that parses.
  When the indexing \<^verbatim>\<open>response_data["choices"][0]["message"]["content"]\<close> fails, the
  pipeline does not raise: it returns the mapping with the error \<^verbatim>\<open>Analysis error:\<close>
  followed by the text of the exception, and two empty lists. The indexing fails on a
  body without \<^verbatim>\<open>choices\<close>, on an empty list of choices, on a first choice without
  \<^verbatim>\<open>message\<close> and on a message without \<^verbatim>\<open>content\<close>, with the exception stated for
  each. When the content is there and is not a string, the indexing does not fail, and
  the pipeline returns a mapping that binds both keys to the empty list.
\<close>

theorem malformed_provider_body_degrades:
  assumes "\<not> api_key_unset env"
    and "requests_post env OPENROUTER_API_URL (headers env) (payload t) = Inr response"
    and "status_code response = 200"
    and "json response = Inr response_data"
  shows "(\<forall>e. snd (first_choice_content response_data) = Inl e \<longrightarrow>
       snd (analyze_with_mistral env t) =
         Inr (PDict [(''error'', PStr (''Analysis error: '' @ str_exn e)),
                     (''good_clausess'', PList []), (''bad_clausess'', PList [])])) \<and>
    (\<forall>d. response_data = PDict d \<and> map_of d ''choices'' = None \<longrightarrow>
       snd (first_choice_content response_data) =
         Inl (Exn KeyError ([CHR 0x27] @ ''choices'' @ [CHR 0x27]))) \<and>
    (\<forall>d. response_data = PDict d \<and> map_of d ''choices'' = Some (PList []) \<longrightarrow>
       snd (first_choice_content response_data) =
         Inl (Exn IndexError ''list index out of range'')) \<and>
    (\<forall>d choice rest. response_data = PDict d \<and>
        map_of d ''choices'' = Some (PList (PDict choice # rest)) \<and>
        map_of choice ''message'' = None \<longrightarrow>
       snd (first_choice_content response_data) =
         Inl (Exn KeyError ([CHR 0x27] @ ''message'' @ [CHR 0x27]))) \<and>
    (\<forall>d choice rest message. response_data = PDict d \<and>
        map_of d ''choices'' = Some (PList (PDict choice # rest)) \<and>
        map_of choice ''message'' = Some (PDict message) \<and>
        map_of message ''content'' = None \<longrightarrow>
       snd (first_choice_content response_data) =
         Inl (Exn KeyError ([CHR 0x27] @ ''content'' @ [CHR 0x27]))) \<and>
    (\<forall>content. snd (first_choice_content response_data) = Inr content \<and>
        type_name content \<noteq> ''str'' \<longrightarrow>
       (\<exists>items. snd (analyze_with_mistral env t) = Inr (PDict items) \<and>
          map_of items ''good_clausess'' = Some (PList []) \<and>
          map_of items ''bad_clausess'' = Some (PList [])))"
proof -
  have a: "snd (analyze_with_mistral env t) =
         Inr (PDict [(''error'', PStr (''Analysis error: '' @ str_exn e)),
                     (''good_clausess'', PList []), (''bad_clausess'', PList [])])"
    if f: "snd (first_choice_content response_data) = Inl e" for e
    using first_choice_content_class [OF f]
    unfolding pipeline_index_raises [OF assms f]
    by (simp add: snd_except_mapping)
  have s1: "snd (first_choice_content (PDict d)) =
         Inl (Exn KeyError ([CHR 0x27] @ ''choices'' @ [CHR 0x27]))"
    if "map_of d ''choices'' = None" for d
    using that by (simp add: first_choice_content_def quoted_def comp_simps)
  have s2: "snd (first_choice_content (PDict d)) = Inl (Exn IndexError ''list index out of range'')"
    if "map_of d ''choices'' = Some (PList [])" for d
    using that by (simp add: first_choice_content_def comp_simps)
  have s3: "snd (first_choice_content (PDict d)) =
         Inl (Exn KeyError ([CHR 0x27] @ ''message'' @ [CHR 0x27]))"
    if "map_of d ''choices'' = Some (PList (PDict choice # rest))"
      and "map_of choice ''message'' = None" for d choice rest
    using that by (simp add: first_choice_content_def quoted_def comp_simps)
  have s4: "snd (first_choice_content (PDict d)) =
         Inl (Exn KeyError ([CHR 0x27] @ ''content'' @ [CHR 0x27]))"
    if "map_of d ''choices'' = Some (PList (PDict choice # rest))"
      and "map_of choice ''message'' = Some (PDict message)"
      and "map_of message ''content'' = None" for d choice rest message
    using that by (simp add: first_choice_content_def quoted_def comp_simps)
  have n: "\<exists>items. snd (analyze_with_mistral env t) = Inr (PDict items) \<and>
          map_of items ''good_clausess'' = Some (PList []) \<and>
          map_of items ''bad_clausess'' = Some (PList [])"
    if f: "snd (first_choice_content response_data) = Inr content"
      and c: "type_name content \<noteq> ''str''" for content
  proof -
    have "snd (extract_json env content) =
        Inr (PDict [(''good_clausess'', PList []), (''bad_clausess'', PList []),
                    (''error'', PStr ''Could not extract valid JSON from the model response.'')])"
      by (simp add: extract_json_not_str [OF c] fallback_def)
    from pipeline_dict [OF model_reply_reached [OF assms f] this]
    show ?thesis by (simp add: clause_mapping_def)
  qed
  from a s1 s2 s3 s4 n show ?thesis by blast
qed

text \<open>
  The theorem on the four bodies whose indexing fails, and on the body whose content
  is \<^verbatim>\<open>null\<close>.
\<close>

theorem malformed_provider_body_degrades_witness:
  "snd (analyze_with_mistral (answering (PDict [(''id'', PStr ''gen-1'')])) ''Tenant pays rent.'') =
     Inr (PDict [(''error'', PStr (''Analysis error: '' @ [CHR 0x27] @ ''choices'' @ [CHR 0x27])),
                 (''good_clausess'', PList []), (''bad_clausess'', PList [])]) \<and>
   snd (analyze_with_mistral (answering (PDict [(''choices'', PList [])])) ''Tenant pays rent.'') =
     Inr (PDict [(''error'', PStr ''Analysis error: list index out of range''),
                 (''good_clausess'', PList []), (''bad_clausess'', PList [])]) \<and>
   snd (analyze_with_mistral
          (answering (PDict [(''choices'', PList [PDict [(''index'', PInt 0)]])]))
          ''Tenant pays rent.'') =
     Inr (PDict [(''error'', PStr (''Analysis error: '' @ [CHR 0x27] @ ''message'' @ [CHR 0x27])),
                 (''good_clausess'', PList []), (''bad_clausess'', PList [])]) \<and>
   snd (analyze_with_mistral
          (answering (PDict [(''choices'',
             PList [PDict [(''message'', PDict [(''role'', PStr ''assistant'')])]])]))
          ''Tenant pays rent.'') =
     Inr (PDict [(''error'', PStr (''Analysis error: '' @ [CHR 0x27] @ ''content'' @ [CHR 0x27])),
                 (''good_clausess'', PList []), (''bad_clausess'', PList [])]) \<and>
   (\<exists>items.
      snd (analyze_with_mistral
             (answering (PDict [(''choices'',
                PList [PDict [(''message'', PDict [(''content'', PNone)])]])]))
             ''Tenant pays rent.'') = Inr (PDict items) \<and>
      map_of items ''good_clausess'' = Some (PList []) \<and>
      map_of items ''bad_clausess'' = Some (PList []))"
proof -
  let ?t = "''Tenant pays rent.''"
  have k: "\<not> api_key_unset (answering b)" for b
    by (simp add: api_key_unset_def answering_def python_env_simps)
  have p: "requests_post (answering b) OPENROUTER_API_URL (headers (answering b)) (payload t) =
      Inr \<lparr> status_code = 200, json = Inr b \<rparr>" for b t
    by (simp add: answering_def python_env_simps provider_body_def)
  have st: "status_code \<lparr> status_code = 200, json = Inr b \<rparr> = 200" for b :: pyval
    by simp
  have js: "json \<lparr> status_code = 200, json = Inr b \<rparr> = Inr b" for b :: pyval
    by simp
  note inst = malformed_provider_body_degrades [OF k p st js]
  let ?b1 = "PDict [(''id'', PStr ''gen-1'')]"
  let ?b2 = "PDict [(''choices'', PList [])]"
  let ?b3 = "PDict [(''choices'', PList [PDict [(''index'', PInt 0)]])]"
  let ?b4 = "PDict [(''choices'', PList [PDict [(''message'', PDict [(''role'', PStr ''assistant'')])]])]"
  let ?b5 = "PDict [(''choices'', PList [PDict [(''message'', PDict [(''content'', PNone)])]])]"
  have f1: "snd (first_choice_content ?b1) = Inl (Exn KeyError ([CHR 0x27] @ ''choices'' @ [CHR 0x27]))"
    using inst [of ?b1 ?t] by simp
  have f2: "snd (first_choice_content ?b2) = Inl (Exn IndexError ''list index out of range'')"
    using inst [of ?b2 ?t] by simp
  have f3: "snd (first_choice_content ?b3) = Inl (Exn KeyError ([CHR 0x27] @ ''message'' @ [CHR 0x27]))"
    using inst [of ?b3 ?t] by simp
  have f4: "snd (first_choice_content ?b4) = Inl (Exn KeyError ([CHR 0x27] @ ''content'' @ [CHR 0x27]))"
    using inst [of ?b4 ?t] by simp
  have f5: "snd (first_choice_content ?b5) = Inr PNone"
    by (simp add: first_choice_content_def comp_simps)
  have 1: "snd (analyze_with_mistral (answering ?b1) ?t) =
     Inr (PDict [(''error'', PStr (''Analysis error: '' @ [CHR 0x27] @ ''choices'' @ [CHR 0x27])),
                 (''good_clausess'', PList []), (''bad_clausess'', PList [])])"
    using inst [of ?b1 ?t] f1 by simp
  have 2: "snd (analyze_with_mistral (answering ?b2) ?t) =
     Inr (PDict [(''error'', PStr ''Analysis error: list index out of range''),
                 (''good_clausess'', PList []), (''bad_clausess'', PList [])])"
    using inst [of ?b2 ?t] f2 by simp
  have 3: "snd (analyze_with_mistral (answering ?b3) ?t) =
     Inr (PDict [(''error'', PStr (''Analysis error: '' @ [CHR 0x27] @ ''message'' @ [CHR 0x27])),
                 (''good_clausess'', PList []), (''bad_clausess'', PList [])])"
    using inst [of ?b3 ?t] f3 by simp
  have 4: "snd (analyze_with_mistral (answering ?b4) ?t) =
     Inr (PDict [(''error'', PStr (''Analysis error: '' @ [CHR 0x27] @ ''content'' @ [CHR 0x27])),
                 (''good_clausess'', PList []), (''bad_clausess'', PList [])])"
    using inst [of ?b4 ?t] f4 by simp
  have 5: "\<exists>items. snd (analyze_with_mistral (answering ?b5) ?t) = Inr (PDict items) \<and>
      map_of items ''good_clausess'' = Some (PList []) \<and>
      map_of items ''bad_clausess'' = Some (PList [])"
    using inst [of ?b5 ?t] f5 by simp
  from 1 2 3 4 5 show ?thesis by blast
qed

section \<open>The claim about the handler\<close>




end
